theory Spec2Isabelle
  imports Complex_Main
begin

section \<open>Forward kinematics and geometric Jacobian of a serial arm (fk.py)\<close>

text \<open>
  The development embeds the numeric core of \<^verbatim>\<open>fk.py\<close>: the per-joint modified-DH
  matrix, the transform builder \<^verbatim>\<open>get_transform_to_base_from\<close>, the Jacobian assembler
  (\<^verbatim>\<open>calc_Z\<close>, \<^verbatim>\<open>calc_P\<close>, \<^verbatim>\<open>construct_jacobian\<close>), the entry point \<^verbatim>\<open>your_fk\<close> and the
  score accounting of \<^verbatim>\<open>score_fk\<close>.

  Conventions of the embedding:
  \<^item> numpy's float64 entries are idealised as \<^typ>\<open>real\<close>, with \<^term>\<open>sin\<close> and \<^term>\<open>cos\<close>
    the real functions; rounding is outside the model;
  \<^item> the 4x4 and 3x3 numpy matrices and the column vectors of the source are fixed-size
    datatypes, a matrix being its rows from top to bottom;
  \<^item> every exception of the source is a value: a function that can raise returns
    \<open>py_error + 'a\<close>, with \<open>Inl\<close> the exception;
  \<^item> a Python list is a HOL list, read with \<open>py_index\<close>, which raises \<open>IndexError\<close>
    out of range and counts a negative index from the end;
  \<^item> one entry of the DH table, a dict with the keys \<^verbatim>\<open>a\<close>, \<^verbatim>\<open>d\<close> and \<^verbatim>\<open>alpha\<close>, is a
    record with these three fields.
\<close>

subsection \<open>Errors, vectors and matrices\<close>

datatype py_error = AssertionError | IndexError | ValueError | ZeroDivisionError

datatype vec3 = Vec3 real real real

datatype vec4 = Vec4 real real real real

datatype mat3 = Mat3 vec3 vec3 vec3

datatype mat4 = Mat4 vec4 vec4 vec4 vec4

text \<open>\<^verbatim>\<open>np.identity(4)\<close>.\<close>

definition identity4 :: mat4 where
  "identity4 = Mat4 (Vec4 1 0 0 0) (Vec4 0 1 0 0) (Vec4 0 0 1 0) (Vec4 0 0 0 1)"

text \<open>A row vector times a matrix, and the matrix product \<^verbatim>\<open>A @ B\<close> row by row.\<close>

fun vecmat4 :: "vec4 \<Rightarrow> mat4 \<Rightarrow> vec4" where
  "vecmat4 (Vec4 x y z w)
     (Mat4 (Vec4 b11 b12 b13 b14) (Vec4 b21 b22 b23 b24)
           (Vec4 b31 b32 b33 b34) (Vec4 b41 b42 b43 b44)) =
     Vec4 (x * b11 + y * b21 + z * b31 + w * b41)
          (x * b12 + y * b22 + z * b32 + w * b42)
          (x * b13 + y * b23 + z * b33 + w * b43)
          (x * b14 + y * b24 + z * b34 + w * b44)"

fun matmul4 :: "mat4 \<Rightarrow> mat4 \<Rightarrow> mat4" where
  "matmul4 (Mat4 r1 r2 r3 r4) B =
     Mat4 (vecmat4 r1 B) (vecmat4 r2 B) (vecmat4 r3 B) (vecmat4 r4 B)"

fun vecmat3 :: "vec3 \<Rightarrow> mat3 \<Rightarrow> vec3" where
  "vecmat3 (Vec3 x y z) (Mat3 (Vec3 b11 b12 b13) (Vec3 b21 b22 b23) (Vec3 b31 b32 b33)) =
     Vec3 (x * b11 + y * b21 + z * b31)
          (x * b12 + y * b22 + z * b32)
          (x * b13 + y * b23 + z * b33)"

fun matmul3 :: "mat3 \<Rightarrow> mat3 \<Rightarrow> mat3" where
  "matmul3 (Mat3 r1 r2 r3) B = Mat3 (vecmat3 r1 B) (vecmat3 r2 B) (vecmat3 r3 B)"

text \<open>A matrix times a column vector.\<close>

fun dot3 :: "vec3 \<Rightarrow> vec3 \<Rightarrow> real" where
  "dot3 (Vec3 x1 y1 z1) (Vec3 x2 y2 z2) = x1 * x2 + y1 * y2 + z1 * z2"

fun dot4 :: "vec4 \<Rightarrow> vec4 \<Rightarrow> real" where
  "dot4 (Vec4 x1 y1 z1 w1) (Vec4 x2 y2 z2 w2) = x1 * x2 + y1 * y2 + z1 * z2 + w1 * w2"

fun matvec3 :: "mat3 \<Rightarrow> vec3 \<Rightarrow> vec3" where
  "matvec3 (Mat3 r1 r2 r3) v = Vec3 (dot3 r1 v) (dot3 r2 v) (dot3 r3 v)"

fun matvec4 :: "mat4 \<Rightarrow> vec4 \<Rightarrow> vec4" where
  "matvec4 (Mat4 r1 r2 r3 r4) v = Vec4 (dot4 r1 v) (dot4 r2 v) (dot4 r3 v) (dot4 r4 v)"

text \<open>The slices \<^verbatim>\<open>M[:3,:3]\<close> (read and assigned), \<^verbatim>\<open>P[0:3,0]\<close> and \<^verbatim>\<open>M[:3,3]\<close>.\<close>

fun block33 :: "mat4 \<Rightarrow> mat3" where
  "block33 (Mat4 (Vec4 m11 m12 m13 m14) (Vec4 m21 m22 m23 m24)
                 (Vec4 m31 m32 m33 m34) (Vec4 m41 m42 m43 m44)) =
     Mat3 (Vec3 m11 m12 m13) (Vec3 m21 m22 m23) (Vec3 m31 m32 m33)"

fun set_block33 :: "mat4 \<Rightarrow> mat3 \<Rightarrow> mat4" where
  "set_block33 (Mat4 (Vec4 m11 m12 m13 m14) (Vec4 m21 m22 m23 m24)
                     (Vec4 m31 m32 m33 m34) (Vec4 m41 m42 m43 m44))
               (Mat3 (Vec3 r11 r12 r13) (Vec3 r21 r22 r23) (Vec3 r31 r32 r33)) =
     Mat4 (Vec4 r11 r12 r13 m14) (Vec4 r21 r22 r23 m24)
          (Vec4 r31 r32 r33 m34) (Vec4 m41 m42 m43 m44)"

fun top3 :: "vec4 \<Rightarrow> vec3" where
  "top3 (Vec4 x y z w) = Vec3 x y z"

fun translation_column :: "mat4 \<Rightarrow> vec3" where
  "translation_column (Mat4 (Vec4 m11 m12 m13 m14) (Vec4 m21 m22 m23 m24)
                            (Vec4 m31 m32 m33 m34) (Vec4 m41 m42 m43 m44)) =
     Vec3 m14 m24 m34"

fun sub4 :: "vec4 \<Rightarrow> vec4 \<Rightarrow> vec4" where
  "sub4 (Vec4 x1 y1 z1 w1) (Vec4 x2 y2 z2 w2) = Vec4 (x1 - x2) (y1 - y2) (z1 - z2) (w1 - w2)"

text \<open>\<^verbatim>\<open>cross(a, b) = np.cross(a, b)\<close> on 3-vectors.\<close>

fun cross :: "vec3 \<Rightarrow> vec3 \<Rightarrow> vec3" where
  "cross (Vec3 a1 a2 a3) (Vec3 b1 b2 b3) =
     Vec3 (a2 * b3 - a3 * b2) (a3 * b1 - a1 * b3) (a1 * b2 - a2 * b1)"

fun norm_sq3 :: "vec3 \<Rightarrow> real" where
  "norm_sq3 (Vec3 x y z) = x * x + y * y + z * z"

definition norm3 :: "vec3 \<Rightarrow> real" where
  "norm3 v = sqrt (norm_sq3 v)"

subsection \<open>Python list indexing and \<^verbatim>\<open>range\<close>\<close>

definition py_index :: "'a list \<Rightarrow> int \<Rightarrow> py_error + 'a" where
  "py_index xs i =
     (if 0 \<le> i \<and> i < int (length xs) then Inr (xs ! nat i)
      else if i < 0 \<and> - int (length xs) \<le> i then Inr (xs ! nat (int (length xs) + i))
      else Inl IndexError)"

definition py_range :: "int \<Rightarrow> nat list" where
  "py_range n = [0..<nat n]"

subsection \<open>The DH table\<close>

record dh_param =
  dh_a :: real
  dh_d :: real
  dh_alpha :: real

definition get_panda_DH_params :: "dh_param list" where
  "get_panda_DH_params =
     [\<lparr>dh_a = 0,           dh_d = 333 / 1000, dh_alpha = 0\<rparr>,
      \<lparr>dh_a = 0,           dh_d = 0,          dh_alpha = - pi / 2\<rparr>,
      \<lparr>dh_a = 0,           dh_d = 316 / 1000, dh_alpha = pi / 2\<rparr>,
      \<lparr>dh_a = 825 / 10000, dh_d = 0,         dh_alpha = pi / 2\<rparr>,
      \<lparr>dh_a = - (825 / 10000), dh_d = 384 / 1000, dh_alpha = - pi / 2\<rparr>,
      \<lparr>dh_a = 0,           dh_d = 0,          dh_alpha = pi / 2\<rparr>,
      \<lparr>dh_a = 88 / 1000,  dh_d = 7 / 100,    dh_alpha = pi / 2\<rparr>]"

subsection \<open>The transform builder\<close>

text \<open>
  The 4x4 literal of the modified DH convention. The source writes it twice, in the loop
  body and in the inclusive branch, with the same text; \<open>joint_matrix\<close> is that literal.
\<close>

definition joint_matrix :: "real \<Rightarrow> dh_param \<Rightarrow> mat4" where
  "joint_matrix th p =
     (let cos_th_i = cos th;
          sin_th_i = sin th;
          a_i = dh_a p;
          cos_alpha_i = cos (dh_alpha p);
          sin_alpha_i = sin (dh_alpha p);
          d_i = dh_d p
      in Mat4 (Vec4 cos_th_i (-1 * sin_th_i) 0 a_i)
              (Vec4 (sin_th_i * cos_alpha_i) (cos_th_i * cos_alpha_i)
                    (-1 * sin_alpha_i) (-1 * d_i * sin_alpha_i))
              (Vec4 (sin_th_i * sin_alpha_i) (cos_th_i * sin_alpha_i)
                    cos_alpha_i (d_i * cos_alpha_i))
              (Vec4 0 0 0 1))"

text \<open>
  One pass of the body: read \<^verbatim>\<open>pose[i]\<close> and \<^verbatim>\<open>DH_params[i]\<close>, then \<^verbatim>\<open>T = T @ [...]\<close>.
\<close>

definition joint_step :: "real list \<Rightarrow> dh_param list \<Rightarrow> int \<Rightarrow> mat4 \<Rightarrow> py_error + mat4" where
  "joint_step pose DH_params i T =
     (case py_index pose i of
        Inl e \<Rightarrow> Inl e
      | Inr th \<Rightarrow>
          (case py_index DH_params i of
             Inl e \<Rightarrow> Inl e
           | Inr p \<Rightarrow> Inr (matmul4 T (joint_matrix th p))))"

text \<open>\<^verbatim>\<open>for i in range(level): ...\<close>, stopping at the first exception.\<close>

fun joint_loop :: "real list \<Rightarrow> dh_param list \<Rightarrow> nat list \<Rightarrow> mat4 \<Rightarrow> py_error + mat4" where
  "joint_loop pose DH_params [] T = Inr T"
| "joint_loop pose DH_params (i # rest) T =
     (case joint_step pose DH_params (int i) T of
        Inl e \<Rightarrow> Inl e
      | Inr T' \<Rightarrow> joint_loop pose DH_params rest T')"

definition get_transform_to_base_from ::
    "int \<Rightarrow> real list \<Rightarrow> dh_param list \<Rightarrow> bool \<Rightarrow> py_error + mat4" where
  "get_transform_to_base_from level pose DH_params use_inclusive_range =
     (let T = identity4;
          use_inclusive_range =
            (if level \<noteq> int (length DH_params) then True else use_inclusive_range)
      in case joint_loop pose DH_params (py_range level) T of
           Inl e \<Rightarrow> Inl e
         | Inr T \<Rightarrow>
             if use_inclusive_range then joint_step pose DH_params level T else Inr T)"

subsection \<open>Reference transforms, written from the specification\<close>

text \<open>
  The per-joint matrix as the specification prints it, for joint angle \<open>\<theta>\<close>, twist \<open>\<alpha>\<close>,
  link length \<open>a\<close> and offset \<open>d\<close>.
\<close>

definition modified_dh :: "real \<Rightarrow> real \<Rightarrow> real \<Rightarrow> real \<Rightarrow> mat4" where
  "modified_dh theta alpha a d =
     Mat4 (Vec4 (cos theta) (- sin theta) 0 a)
          (Vec4 (sin theta * cos alpha) (cos theta * cos alpha) (- sin alpha) (- d * sin alpha))
          (Vec4 (sin theta * sin alpha) (cos theta * sin alpha) (cos alpha) (d * cos alpha))
          (Vec4 0 0 0 1)"

text \<open>
  \<open>spec_T q dh i\<close> is the specification's \<open>T_i\<close>, and \<open>spec_chain q dh k\<close> the product
  \<open>T_0 \<cdot> T_1 \<cdot> ... \<cdot> T_(k-1)\<close>, multiplied from the left starting at the identity.
\<close>

definition spec_T :: "real list \<Rightarrow> dh_param list \<Rightarrow> nat \<Rightarrow> mat4" where
  "spec_T q dh i = modified_dh (q ! i) (dh_alpha (dh ! i)) (dh_a (dh ! i)) (dh_d (dh ! i))"

fun spec_chain :: "real list \<Rightarrow> dh_param list \<Rightarrow> nat \<Rightarrow> mat4" where
  "spec_chain q dh 0 = identity4"
| "spec_chain q dh (Suc k) = matmul4 (spec_chain q dh k) (spec_T q dh k)"

subsection \<open>The Jacobian assembler\<close>

text \<open>
  \<open>calc_Z\<close> and \<open>calc_P\<close> call the transform builder with three arguments, so the flag
  has its default \<open>False\<close>. The column matrix with the entries 0, 0, 1 is \<open>Vec3 0 0 1\<close>.
\<close>

definition calc_Z :: "int \<Rightarrow> real list \<Rightarrow> dh_param list \<Rightarrow> mat4 \<Rightarrow> py_error + vec3" where
  "calc_Z l q DH_params base_pose =
     (case get_transform_to_base_from l q DH_params False of
        Inl e \<Rightarrow> Inl e
      | Inr T \<Rightarrow> Inr (matvec3 (block33 (matmul4 base_pose T)) (Vec3 0 0 1)))"

definition calc_P :: "int \<Rightarrow> real list \<Rightarrow> int \<Rightarrow> dh_param list \<Rightarrow> mat4 \<Rightarrow> py_error + vec3" where
  "calc_P l q n_joints DH_params base_pose =
     (case get_transform_to_base_from n_joints q DH_params False of
        Inl e \<Rightarrow> Inl e
      | Inr TE \<Rightarrow>
          (let P_0E = matvec4 (matmul4 base_pose TE) (Vec4 0 0 0 1)
           in case get_transform_to_base_from l q DH_params False of
                Inl e \<Rightarrow> Inl e
              | Inr Ti \<Rightarrow>
                  (let P_0_from_i_1 = matvec4 (matmul4 base_pose Ti) (Vec4 0 0 0 1);
                       P = sub4 P_0E P_0_from_i_1
                   in Inr (top3 P))))"

text \<open>
  The Jacobian is the list of its columns; a column is the pair of its linear block
  (rows 0 to 2) and its angular block (rows 3 to 5), the two halves that the source
  stacks with \<^verbatim>\<open>np.vstack\<close>. \<^verbatim>\<open>J[:,i] = ...\<close> is the list update at \<open>i\<close>.
\<close>

type_synonym jcolumn = "vec3 \<times> vec3"

fun jacobian_loop ::
    "real list \<Rightarrow> int \<Rightarrow> dh_param list \<Rightarrow> mat4 \<Rightarrow> nat list \<Rightarrow> jcolumn list
      \<Rightarrow> py_error + jcolumn list" where
  "jacobian_loop q n_joints DH_params base_pose [] J = Inr J"
| "jacobian_loop q n_joints DH_params base_pose (i # rest) J =
     (case calc_Z (int i) q DH_params base_pose of
        Inl e \<Rightarrow> Inl e
      | Inr Z \<Rightarrow>
          (case calc_P (int i) q n_joints DH_params base_pose of
             Inl e \<Rightarrow> Inl e
           | Inr P \<Rightarrow>
               (let J_Li = cross Z P;
                    J_Ai = Z
                in jacobian_loop q n_joints DH_params base_pose rest (J[i := (J_Li, J_Ai)]))))"

text \<open>\<^verbatim>\<open>np.zeros((6, n_joints))\<close> raises \<open>ValueError\<close> for a negative dimension.\<close>

definition construct_jacobian ::
    "int \<Rightarrow> real list \<Rightarrow> dh_param list \<Rightarrow> mat4 \<Rightarrow> py_error + jcolumn list" where
  "construct_jacobian n_joints q DH_params base_pose =
     (if n_joints < 0 then Inl ValueError
      else jacobian_loop q n_joints DH_params base_pose (py_range n_joints)
             (replicate (nat n_joints) (Vec3 0 0 0, Vec3 0 0 0)))"

subsection \<open>The entry point\<close>

text \<open>
  \<^verbatim>\<open>R.from_rotvec([0, 0, t]).as_matrix()\<close>: the rotation by the angle \<open>t\<close> about the z axis.
\<close>

definition from_rotvec_z :: "real \<Rightarrow> mat3" where
  "from_rotvec_z t = Mat3 (Vec3 (cos t) (- sin t) 0) (Vec3 (sin t) (cos t) 0) (Vec3 0 0 1)"

definition adjustment :: mat3 where
  "adjustment = from_rotvec_z (- (785398163397 / 1000000000000))"

text \<open>
  \<^verbatim>\<open>get_matrix_from_pose\<close> and \<^verbatim>\<open>get_pose_from_matrix\<close> come from \<^verbatim>\<open>utils/bullet_utils.py\<close>,
  which is not among the sources, so \<open>your_fk\<close> takes both as parameters. The robot
  object is read once, for \<^verbatim>\<open>robot._base_position\<close>, which is the argument \<open>base_pos\<close>.
\<close>

definition your_fk ::
    "(real list \<Rightarrow> mat4) \<Rightarrow> (mat4 \<Rightarrow> 'p) \<Rightarrow> real list \<Rightarrow> dh_param list \<Rightarrow> real list
      \<Rightarrow> py_error + ('p \<times> jcolumn list)" where
  "your_fk get_matrix_from_pose get_pose_from_matrix base_pos DH_params q =
     (let base_pose = base_pos @ [0, 0, 0, 1]
      in if \<not> (length DH_params = 7 \<and> length q = 7) then Inl AssertionError
         else
           (let A = get_matrix_from_pose base_pose
            in case get_transform_to_base_from 7 q DH_params False of
                 Inl e \<Rightarrow> Inl e
               | Inr T \<Rightarrow>
                   (let A = matmul4 A T;
                        n_joints = int (length DH_params)
                    in case construct_jacobian n_joints q DH_params
                              (get_matrix_from_pose base_pose) of
                         Inl e \<Rightarrow> Inl e
                       | Inr jacobian \<Rightarrow>
                           (let A = set_block33 A (matmul3 (block33 A) adjustment);
                                pose_7d = get_pose_from_matrix A
                            in Inr (pose_7d, jacobian)))))"

text \<open>
  Modelled from the spec: \<^verbatim>\<open>get_matrix_from_pose\<close> is missing from the sources; section 4.3,
  step 1 of the specification says that the base position and an implicit identity
  orientation become the base 4x4 transform. \<open>spec_base_transform\<close> is that transform for
  a pose list \<open>[x, y, z, 0, 0, 0, 1]\<close>; it instantiates the parameter in the examples.
\<close>

fun spec_base_transform :: "real list \<Rightarrow> mat4" where
  "spec_base_transform (x # y # z # rest) =
     Mat4 (Vec4 1 0 0 x) (Vec4 0 1 0 y) (Vec4 0 0 1 z) (Vec4 0 0 0 1)"
| "spec_base_transform _ = identity4"

definition identity3 :: mat3 where
  "identity3 = Mat3 (Vec3 1 0 0) (Vec3 0 1 0) (Vec3 0 0 1)"

subsection \<open>Reference axis and lever arm, written from the specification\<close>

fun third_column :: "mat3 \<Rightarrow> vec3" where
  "third_column (Mat3 (Vec3 r11 r12 r13) (Vec3 r21 r22 r23) (Vec3 r31 r32 r33)) =
     Vec3 r13 r23 r33"

fun sub3 :: "vec3 \<Rightarrow> vec3 \<Rightarrow> vec3" where
  "sub3 (Vec3 x1 y1 z1) (Vec3 x2 y2 z2) = Vec3 (x1 - x2) (y1 - y2) (z1 - z2)"

text \<open>
  \<open>spec_Z base q dh k\<close> is the z column of the rotation block of \<open>base \<cdot> T_0 \<cdot> ... \<cdot> T_(k-1)\<close>,
  and \<open>spec_P base q dh n k\<close> the position of \<open>base \<cdot> T_0 \<cdot> ... \<cdot> T_(n-1)\<close> minus the position
  of \<open>base \<cdot> T_0 \<cdot> ... \<cdot> T_(k-1)\<close>. The specification's \<open>Z_i\<close> and \<open>P_i\<close> are these at \<open>k = i\<close>.
\<close>

definition spec_Z :: "mat4 \<Rightarrow> real list \<Rightarrow> dh_param list \<Rightarrow> nat \<Rightarrow> vec3" where
  "spec_Z base q dh k = third_column (block33 (matmul4 base (spec_chain q dh k)))"

definition spec_P :: "mat4 \<Rightarrow> real list \<Rightarrow> dh_param list \<Rightarrow> nat \<Rightarrow> nat \<Rightarrow> vec3" where
  "spec_P base q dh n k =
     sub3 (translation_column (matmul4 base (spec_chain q dh n)))
          (translation_column (matmul4 base (spec_chain q dh k)))"

subsection \<open>The scorer\<close>

definition JACOBIAN_SCORE_MAX :: real where
  "JACOBIAN_SCORE_MAX = 10"

definition JACOBIAN_ERROR_THRESH :: real where
  "JACOBIAN_ERROR_THRESH = 5 / 100"

definition FK_SCORE_MAX :: real where
  "FK_SCORE_MAX = 10"

definition FK_ERROR_THRESH :: real where
  "FK_ERROR_THRESH = 5 / 1000"

definition TASK1_SCORE_MAX :: real where
  "TASK1_SCORE_MAX = JACOBIAN_SCORE_MAX + FK_SCORE_MAX"

text \<open>Python's \<^verbatim>\<open>/\<close> on floats raises \<open>ZeroDivisionError\<close> for a zero divisor.\<close>

definition py_truediv :: "real \<Rightarrow> real \<Rightarrow> py_error + real" where
  "py_truediv x y = (if y = 0 then Inl ZeroDivisionError else Inr (x / y))"

text \<open>
  One test-case file after \<^verbatim>\<open>json.load\<close>: the lists under the keys \<^verbatim>\<open>joint_poses\<close>,
  \<^verbatim>\<open>poses\<close> and \<^verbatim>\<open>jacobian\<close>. Opening and parsing the file are outside the model.
\<close>

record testcase_file =
  joint_poses :: "real list list"
  poses :: "real list list"
  jacobian :: "real list list list"

text \<open>
  The four lists that \<open>score_fk\<close> updates, and \<open>printed\<close>, the per-file lines it prints:
  for each file the FK score, its maximum \<^verbatim>\<open>FK_SCORE_MAX / testcase_file_num\<close>, the
  Jacobian score and its maximum, in the order of the \<^verbatim>\<open>score_msg\<close> format string.
\<close>

record score_state =
  fk_score :: "real list"
  fk_error_cnt :: "nat list"
  jacobian_score :: "real list"
  jacobian_error_cnt :: "nat list"
  printed :: "(real \<times> real \<times> real \<times> real) list"

text \<open>\<^verbatim>\<open>xs[file_id] -= penalty\<close>, \<^verbatim>\<open>cnt[file_id] += 1\<close> and the clamp of lines 221 and 222.\<close>

definition penalise :: "real list \<Rightarrow> nat \<Rightarrow> real \<Rightarrow> real list" where
  "penalise xs file_id penalty = xs[file_id := xs ! file_id - penalty]"

definition count_error :: "nat list \<Rightarrow> nat \<Rightarrow> nat list" where
  "count_error cnt file_id = cnt[file_id := cnt ! file_id + 1]"

definition clamp_score :: "real list \<Rightarrow> nat \<Rightarrow> real list" where
  "clamp_score xs file_id = xs[file_id := (if xs ! file_id < 0 then 0 else xs ! file_id)]"

text \<open>
  The body of \<^verbatim>\<open>for i in range(cases_num)\<close>. The two calls of \<^verbatim>\<open>np.linalg.norm\<close> on a
  difference with the ground truth are the parameters \<open>pose_error\<close> and \<open>jacobian_error\<close>
  (numpy may raise on a shape mismatch, so they return \<open>py_error + real\<close>); \<open>fk\<close> is
  \<^verbatim>\<open>your_fk(robot, dh_params, _)\<close>. The drawing under \<^verbatim>\<open>visualize\<close> and the prints of the
  matrices leave the scores untouched and are left out.
\<close>

definition score_case ::
    "(real list \<Rightarrow> py_error + ('p \<times> jcolumn list)) \<Rightarrow> ('p \<Rightarrow> real list \<Rightarrow> py_error + real)
      \<Rightarrow> (jcolumn list \<Rightarrow> real list list \<Rightarrow> py_error + real)
      \<Rightarrow> testcase_file \<Rightarrow> real \<Rightarrow> nat \<Rightarrow> nat \<Rightarrow> score_state \<Rightarrow> py_error + score_state" where
  "score_case fk pose_error jacobian_error fk_dict penalty file_id i st =
     (case py_index (joint_poses fk_dict) (int i) of
        Inl e \<Rightarrow> Inl e
      | Inr joint_pose \<Rightarrow>
     (case fk joint_pose of
        Inl e \<Rightarrow> Inl e
      | Inr (your_pose, your_jacobian) \<Rightarrow>
     (case py_index (poses fk_dict) (int i) of
        Inl e \<Rightarrow> Inl e
      | Inr gt_pose \<Rightarrow>
     (case pose_error your_pose gt_pose of
        Inl e \<Rightarrow> Inl e
      | Inr fk_error \<Rightarrow>
     (let st = (if fk_error > FK_ERROR_THRESH
                then st\<lparr>fk_score := penalise (fk_score st) file_id penalty,
                        fk_error_cnt := count_error (fk_error_cnt st) file_id\<rparr>
                else st)
      in case py_index (jacobian fk_dict) (int i) of
           Inl e \<Rightarrow> Inl e
         | Inr gt_jacobian \<Rightarrow>
        (case jacobian_error your_jacobian gt_jacobian of
           Inl e \<Rightarrow> Inl e
         | Inr jacobian_error \<Rightarrow>
             Inr (if jacobian_error > JACOBIAN_ERROR_THRESH
                  then st\<lparr>jacobian_score := penalise (jacobian_score st) file_id penalty,
                          jacobian_error_cnt := count_error (jacobian_error_cnt st) file_id\<rparr>
                  else st)))))))"

fun score_cases ::
    "(real list \<Rightarrow> py_error + ('p \<times> jcolumn list)) \<Rightarrow> ('p \<Rightarrow> real list \<Rightarrow> py_error + real)
      \<Rightarrow> (jcolumn list \<Rightarrow> real list list \<Rightarrow> py_error + real)
      \<Rightarrow> testcase_file \<Rightarrow> real \<Rightarrow> nat \<Rightarrow> nat list \<Rightarrow> score_state \<Rightarrow> py_error + score_state" where
  "score_cases fk pose_error jacobian_error fk_dict penalty file_id [] st = Inr st"
| "score_cases fk pose_error jacobian_error fk_dict penalty file_id (i # rest) st =
     (case score_case fk pose_error jacobian_error fk_dict penalty file_id i st of
        Inl e \<Rightarrow> Inl e
      | Inr st' \<Rightarrow> score_cases fk pose_error jacobian_error fk_dict penalty file_id rest st')"

text \<open>
  The body of \<^verbatim>\<open>for file_id, testcase_file in enumerate(testcase_files)\<close>: the penalty,
  the cases, the two clamps, and the printed line.
\<close>

definition score_file ::
    "(real list \<Rightarrow> py_error + ('p \<times> jcolumn list)) \<Rightarrow> ('p \<Rightarrow> real list \<Rightarrow> py_error + real)
      \<Rightarrow> (jcolumn list \<Rightarrow> real list list \<Rightarrow> py_error + real)
      \<Rightarrow> nat \<Rightarrow> nat \<Rightarrow> testcase_file \<Rightarrow> score_state \<Rightarrow> py_error + score_state" where
  "score_file fk pose_error jacobian_error testcase_file_num file_id fk_dict st =
     (let cases_num = length (joint_poses fk_dict)
      in case py_truediv TASK1_SCORE_MAX (real testcase_file_num) of
           Inl e \<Rightarrow> Inl e
         | Inr share \<Rightarrow>
        (case py_truediv share (3 / 10 * real cases_num) of
           Inl e \<Rightarrow> Inl e
         | Inr penalty \<Rightarrow>
        (case score_cases fk pose_error jacobian_error fk_dict penalty file_id
                [0..<cases_num] st of
           Inl e \<Rightarrow> Inl e
         | Inr st \<Rightarrow>
             (let st = st\<lparr>fk_score := clamp_score (fk_score st) file_id\<rparr>;
                  st = st\<lparr>jacobian_score := clamp_score (jacobian_score st) file_id\<rparr>
              in Inr (st\<lparr>printed := printed st @
                        [(fk_score st ! file_id, FK_SCORE_MAX / real testcase_file_num,
                          jacobian_score st ! file_id,
                          JACOBIAN_SCORE_MAX / real testcase_file_num)]\<rparr>)))))"

fun score_files ::
    "(real list \<Rightarrow> py_error + ('p \<times> jcolumn list)) \<Rightarrow> ('p \<Rightarrow> real list \<Rightarrow> py_error + real)
      \<Rightarrow> (jcolumn list \<Rightarrow> real list list \<Rightarrow> py_error + real)
      \<Rightarrow> nat \<Rightarrow> (nat \<times> testcase_file) list \<Rightarrow> score_state \<Rightarrow> py_error + score_state" where
  "score_files fk pose_error jacobian_error testcase_file_num [] st = Inr st"
| "score_files fk pose_error jacobian_error testcase_file_num ((file_id, fk_dict) # rest) st =
     (case score_file fk pose_error jacobian_error testcase_file_num file_id fk_dict st of
        Inl e \<Rightarrow> Inl e
      | Inr st' \<Rightarrow> score_files fk pose_error jacobian_error testcase_file_num rest st')"

text \<open>\<^verbatim>\<open>total = 0.0; for file_id in range(testcase_file_num): total += xs[file_id]\<close>.\<close>

definition total_score :: "real list \<Rightarrow> nat \<Rightarrow> real" where
  "total_score xs testcase_file_num =
     foldl (\<lambda>total file_id. total + xs ! file_id) 0 [0..<testcase_file_num]"

text \<open>
  \<open>score_fk\<close> returns what the source prints: the per-file lines, then the total score and
  the maximum \<^verbatim>\<open>FK_SCORE_MAX + JACOBIAN_SCORE_MAX\<close> it is printed against. The lists are
  built by comprehensions over \<^verbatim>\<open>range(testcase_file_num)\<close>, so no division is evaluated
  when there is no file.
\<close>

definition score_fk ::
    "(real list \<Rightarrow> mat4) \<Rightarrow> (mat4 \<Rightarrow> 'p) \<Rightarrow> ('p \<Rightarrow> real list \<Rightarrow> py_error + real)
      \<Rightarrow> (jcolumn list \<Rightarrow> real list list \<Rightarrow> py_error + real)
      \<Rightarrow> real list \<Rightarrow> testcase_file list
      \<Rightarrow> py_error + ((real \<times> real \<times> real \<times> real) list \<times> real \<times> real)" where
  "score_fk get_matrix_from_pose get_pose_from_matrix pose_error jacobian_error
       robot_base_position testcase_files =
     (let testcase_file_num = length testcase_files;
          dh_params = get_panda_DH_params;
          st = \<lparr>fk_score = replicate testcase_file_num (FK_SCORE_MAX / real testcase_file_num),
                fk_error_cnt = replicate testcase_file_num 0,
                jacobian_score =
                  replicate testcase_file_num (JACOBIAN_SCORE_MAX / real testcase_file_num),
                jacobian_error_cnt = replicate testcase_file_num 0,
                printed = []\<rparr>
      in case score_files
                (your_fk get_matrix_from_pose get_pose_from_matrix robot_base_position dh_params)
                pose_error jacobian_error testcase_file_num
                (zip [0..<testcase_file_num] testcase_files) st of
           Inl e \<Rightarrow> Inl e
         | Inr st \<Rightarrow>
             (let total_fk_score = total_score (fk_score st) testcase_file_num;
                  total_jacobian_score = total_score (jacobian_score st) testcase_file_num
              in Inr (printed st, total_fk_score + total_jacobian_score,
                      FK_SCORE_MAX + JACOBIAN_SCORE_MAX)))"

subsection \<open>Notions used in the proofs\<close>

text \<open>
  The last row of a 4x4 matrix, and the property of a 3x3 matrix of keeping the squared
  length of every vector it is applied to.
\<close>

fun bottom_row :: "mat4 \<Rightarrow> vec4" where
  "bottom_row (Mat4 r1 r2 r3 r4) = r4"

definition isometry3 :: "mat3 \<Rightarrow> bool" where
  "isometry3 R \<longleftrightarrow> (\<forall>v. norm_sq3 (matvec3 R v) = norm_sq3 v)"

text \<open>
  The invariants of the scorer. \<open>all_ok n m xs\<close>: the list has \<open>n\<close> scores, all between 0
  and \<open>m\<close>. \<open>track_ok n m k xs\<close>: the same, except that the score at \<open>k\<close>, the file being
  processed, may have gone below 0. \<open>line_ok n l\<close>: a printed line shows scores between 0
  and the per-file maxima for \<open>n\<close> files.
\<close>

definition track_ok :: "nat \<Rightarrow> real \<Rightarrow> nat \<Rightarrow> real list \<Rightarrow> bool" where
  "track_ok n m k xs \<longleftrightarrow>
     length xs = n \<and> (\<forall>j<n. xs ! j \<le> m) \<and> (\<forall>j<n. j \<noteq> k \<longrightarrow> 0 \<le> xs ! j)"

definition all_ok :: "nat \<Rightarrow> real \<Rightarrow> real list \<Rightarrow> bool" where
  "all_ok n m xs \<longleftrightarrow> length xs = n \<and> (\<forall>j<n. 0 \<le> xs ! j \<and> xs ! j \<le> m)"

definition line_ok :: "nat \<Rightarrow> real \<times> real \<times> real \<times> real \<Rightarrow> bool" where
  "line_ok n l \<longleftrightarrow>
     (case l of (f, fmax, j, jmax) \<Rightarrow>
        0 \<le> f \<and> f \<le> fmax \<and> fmax = FK_SCORE_MAX / real n \<and>
        0 \<le> j \<and> j \<le> jmax \<and> jmax = JACOBIAN_SCORE_MAX / real n)"

definition state_ok :: "nat \<Rightarrow> score_state \<Rightarrow> bool" where
  "state_ok n st \<longleftrightarrow>
     all_ok n (FK_SCORE_MAX / real n) (fk_score st) \<and>
     all_ok n (JACOBIAN_SCORE_MAX / real n) (jacobian_score st) \<and>
     (\<forall>l\<in>set (printed st). line_ok n l)"

definition running_ok :: "nat \<Rightarrow> nat \<Rightarrow> score_state \<Rightarrow> bool" where
  "running_ok n k st \<longleftrightarrow>
     track_ok n (FK_SCORE_MAX / real n) k (fk_score st) \<and>
     track_ok n (JACOBIAN_SCORE_MAX / real n) k (jacobian_score st) \<and>
     (\<forall>l\<in>set (printed st). line_ok n l)"

section \<open>Properties of the transform builder\<close>

subsection \<open>Indexing and the loop\<close>

lemma joint_matrix_spec: "joint_matrix th p = modified_dh th (dh_alpha p) (dh_a p) (dh_d p)"
  by (simp add: joint_matrix_def modified_dh_def Let_def)

lemma py_index_nat: "i < length xs \<Longrightarrow> py_index xs (int i) = Inr (xs ! i)"
  by (simp add: py_index_def)

lemma py_index_length: "py_index xs (int (length xs)) = Inl IndexError"
  by (simp add: py_index_def)

lemma py_index_beyond: "length xs \<le> i \<Longrightarrow> py_index xs (int i) = Inl IndexError"
  by (simp add: py_index_def)

lemma py_index_error: "py_index xs i = Inl e \<Longrightarrow> e = IndexError"
  by (simp add: py_index_def split: if_splits)

lemma joint_step_ok:
  "i < length pose \<Longrightarrow> i < length dh \<Longrightarrow>
   joint_step pose dh (int i) T = Inr (matmul4 T (spec_T pose dh i))"
  by (simp add: joint_step_def py_index_nat spec_T_def joint_matrix_spec)

lemma joint_step_bad:
  "length pose \<le> i \<or> length dh \<le> i \<Longrightarrow> joint_step pose dh (int i) T = Inl IndexError"
  by (auto simp add: joint_step_def py_index_beyond split: sum.splits dest: py_index_error)

lemma joint_step_error: "joint_step pose dh i T = Inl e \<Longrightarrow> e = IndexError"
  by (auto simp add: joint_step_def split: sum.splits dest: py_index_error)

lemma joint_loop_append:
  "joint_loop pose dh (xs @ ys) T =
     (case joint_loop pose dh xs T of Inl e \<Rightarrow> Inl e | Inr T' \<Rightarrow> joint_loop pose dh ys T')"
  by (induction xs arbitrary: T) (auto split: sum.splits)

lemma joint_loop_upt:
  "k \<le> length pose \<Longrightarrow> k \<le> length dh \<Longrightarrow>
   joint_loop pose dh [0..<k] identity4 = Inr (spec_chain pose dh k)"
proof (induction k)
  case 0
  then show ?case by simp
next
  case (Suc k)
  then show ?case
    by (simp add: joint_loop_append joint_step_ok)
qed

lemma joint_loop_upt_bad:
  "length pose < k \<or> length dh < k \<Longrightarrow> joint_loop pose dh [0..<k] identity4 = Inl IndexError"
proof (induction k)
  case 0
  then show ?case by simp
next
  case (Suc k)
  show ?case
  proof (cases "length pose < k \<or> length dh < k")
    case True
    then show ?thesis using Suc.IH by (simp add: joint_loop_append)
  next
    case False
    then have le: "k \<le> length pose" "k \<le> length dh" by auto
    with Suc.prems have "length pose \<le> k \<or> length dh \<le> k" by auto
    then show ?thesis
      using le by (simp add: joint_loop_append joint_loop_upt joint_step_bad)
  qed
qed

lemma gt_full:
  assumes "length dh \<le> length q"
  shows "get_transform_to_base_from (int (length dh)) q dh False = Inr (spec_chain q dh (length dh))"
  using assms by (simp add: get_transform_to_base_from_def py_range_def joint_loop_upt)

lemma gt_partial:
  assumes "0 \<le> level" "level < int (length dh)" "level < int (length pose)"
  shows "get_transform_to_base_from level pose dh flag = Inr (spec_chain pose dh (nat level + 1))"
proof -
  obtain k where k: "level = int k" using assms(1) nonneg_int_cases by blast
  with assms have "k < length dh" "k < length pose" by auto
  then show ?thesis unfolding k
    by (simp add: get_transform_to_base_from_def py_range_def joint_loop_upt joint_step_ok)
qed

lemma spec_chain_cong:
  "\<forall>i<k. q ! i = q' ! i \<Longrightarrow> spec_chain q dh k = spec_chain q' dh k"
  by (induction k) (auto simp add: spec_T_def)

lemma joint_loop_error: "joint_loop pose dh xs T = Inl e \<Longrightarrow> e = IndexError"
  by (induction xs arbitrary: T) (auto split: sum.splits dest: joint_step_error)

lemma gt_error: "get_transform_to_base_from level pose dh flag = Inl e \<Longrightarrow> e = IndexError"
  by (auto simp add: get_transform_to_base_from_def Let_def split: sum.splits if_splits
      dest: joint_loop_error joint_step_error)

lemma gt_full_inclusive:
  "get_transform_to_base_from (int (length dh)) pose dh True = Inl IndexError"
proof (cases "joint_loop pose dh (py_range (int (length dh))) identity4")
  case (Inl e)
  then show ?thesis
    using joint_loop_error [OF Inl] by (simp add: get_transform_to_base_from_def)
next
  case (Inr T)
  then show ?thesis
    by (simp add: get_transform_to_base_from_def joint_step_bad)
qed

lemma gt_beyond:
  assumes "int (length dh) < level"
  shows "get_transform_to_base_from level pose dh flag = Inl IndexError"
proof -
  from assms have "length dh < nat level" by simp
  then have "joint_loop pose dh [0..<nat level] identity4 = Inl IndexError"
    by (simp add: joint_loop_upt_bad)
  then show ?thesis by (simp add: get_transform_to_base_from_def py_range_def)
qed

subsection \<open>Matrix algebra\<close>

lemma matmul4_identity_left: "matmul4 identity4 M = M"
proof -
  obtain r1 r2 r3 r4 where M: "M = Mat4 r1 r2 r3 r4" by (cases M)
  show ?thesis unfolding M identity4_def
    by (cases r1; cases r2; cases r3; cases r4) simp
qed

lemma block33_matmul4:
  assumes "bottom_row B = Vec4 0 0 0 1"
  shows "block33 (matmul4 A B) = matmul3 (block33 A) (block33 B)"
proof -
  obtain a1 a2 a3 a4 where A: "A = Mat4 a1 a2 a3 a4" by (cases A)
  obtain b1 b2 b3 b4 where B: "B = Mat4 b1 b2 b3 b4" by (cases B)
  show ?thesis using assms unfolding A B
    by (cases a1; cases a2; cases a3; cases a4; cases b1; cases b2; cases b3) simp
qed

lemma bottom_row_matmul4:
  assumes "bottom_row A = Vec4 0 0 0 1" "bottom_row B = Vec4 0 0 0 1"
  shows "bottom_row (matmul4 A B) = Vec4 0 0 0 1"
proof -
  obtain a1 a2 a3 a4 where A: "A = Mat4 a1 a2 a3 a4" by (cases A)
  obtain b1 b2 b3 b4 where B: "B = Mat4 b1 b2 b3 b4" by (cases B)
  show ?thesis using assms unfolding A B
    by (cases b1; cases b2; cases b3) simp
qed

lemma matvec3_matmul3: "matvec3 (matmul3 A B) v = matvec3 A (matvec3 B v)"
proof -
  obtain a1 a2 a3 where A: "A = Mat3 a1 a2 a3" by (cases A)
  obtain b1 b2 b3 where B: "B = Mat3 b1 b2 b3" by (cases B)
  show ?thesis unfolding A B
    by (cases a1; cases a2; cases a3; cases b1; cases b2; cases b3; cases v)
       (simp add: algebra_simps)
qed

lemma rotation_norm:
  fixes c s C S x y z :: real
  assumes cs: "c * c + s * s = 1" and CS: "C * C + S * S = 1"
  shows "(c * x + - s * y + 0 * z) * (c * x + - s * y + 0 * z)
       + (s * C * x + c * C * y + - S * z) * (s * C * x + c * C * y + - S * z)
       + (s * S * x + c * S * y + C * z) * (s * S * x + c * S * y + C * z)
       = x * x + y * y + z * z"
proof -
  have "(c * x + - s * y + 0 * z) * (c * x + - s * y + 0 * z)
       + (s * C * x + c * C * y + - S * z) * (s * C * x + c * C * y + - S * z)
       + (s * S * x + c * S * y + C * z) * (s * S * x + c * S * y + C * z)
      = (c * c + s * s * (C * C + S * S)) * (x * x)
      + (s * s + c * c * (C * C + S * S)) * (y * y)
      + (C * C + S * S) * (z * z)
      + 2 * c * s * x * y * ((C * C + S * S) - 1)"
    by (simp add: algebra_simps)
  also have "\<dots> = x * x + y * y + z * z"
    by (simp add: CS cs) (metis cs add.commute)
  finally show ?thesis .
qed

lemma bottom_row_modified_dh: "bottom_row (modified_dh th al a d) = Vec4 0 0 0 1"
  by (simp add: modified_dh_def)

lemma bottom_row_spec_T: "bottom_row (spec_T q dh i) = Vec4 0 0 0 1"
  by (simp add: spec_T_def bottom_row_modified_dh)

lemma bottom_row_spec_chain: "bottom_row (spec_chain q dh k) = Vec4 0 0 0 1"
  by (induction k) (simp_all add: identity4_def bottom_row_matmul4 bottom_row_spec_T)

lemma isometry3_modified_dh: "isometry3 (block33 (modified_dh th al a d))"
proof -
  have cs: "cos th * cos th + sin th * sin th = 1" by simp
  have CS: "cos al * cos al + sin al * sin al = 1" by simp
  show ?thesis
    unfolding isometry3_def
  proof
    fix v
    obtain x y z where v: "v = Vec3 x y z" by (cases v)
    show "norm_sq3 (matvec3 (block33 (modified_dh th al a d)) v) = norm_sq3 v"
      unfolding v modified_dh_def using rotation_norm [OF cs CS, of x y z]
      by simp
  qed
qed

lemma isometry3_matmul3: "isometry3 A \<Longrightarrow> isometry3 B \<Longrightarrow> isometry3 (matmul3 A B)"
  by (simp add: isometry3_def matvec3_matmul3)

lemma isometry3_identity: "isometry3 identity3"
  unfolding isometry3_def identity3_def
proof
  fix v show "norm_sq3 (matvec3 (Mat3 (Vec3 1 0 0) (Vec3 0 1 0) (Vec3 0 0 1)) v) = norm_sq3 v"
    by (cases v) simp
qed

lemma block33_identity4: "block33 identity4 = identity3"
  by (simp add: identity4_def identity3_def)

lemma isometry3_spec_chain: "isometry3 (block33 (spec_chain q dh k))"
proof (induction k)
  case 0
  show ?case by (simp add: block33_identity4 isometry3_identity)
next
  case (Suc k)
  have "isometry3 (block33 (spec_T q dh k))"
    by (simp add: spec_T_def isometry3_modified_dh)
  with Suc show ?case
    by (simp add: block33_matmul4 bottom_row_spec_T isometry3_matmul3)
qed

subsection \<open>The Jacobian assembler on a full table\<close>

lemma matvec3_third_column: "matvec3 M (Vec3 0 0 1) = third_column M"
proof -
  obtain r1 r2 r3 where M: "M = Mat3 r1 r2 r3" by (cases M)
  show ?thesis unfolding M by (cases r1; cases r2; cases r3) simp
qed

lemma matvec4_translation_column:
  "top3 (sub4 (matvec4 A (Vec4 0 0 0 1)) (matvec4 B (Vec4 0 0 0 1))) =
   sub3 (translation_column A) (translation_column B)"
proof -
  obtain a1 a2 a3 a4 where A: "A = Mat4 a1 a2 a3 a4" by (cases A)
  obtain b1 b2 b3 b4 where B: "B = Mat4 b1 b2 b3 b4" by (cases B)
  show ?thesis unfolding A B
    by (cases a1; cases a2; cases a3; cases a4; cases b1; cases b2; cases b3; cases b4) simp
qed

lemma calc_Z_inclusive:
  assumes "i < length dh" "i < length q"
  shows "calc_Z (int i) q dh base = Inr (spec_Z base q dh (Suc i))"
  using assms gt_partial [of "int i" dh q False]
  by (simp add: calc_Z_def spec_Z_def matvec3_third_column)

lemma calc_P_inclusive:
  assumes "i < length dh" "length dh \<le> length q"
  shows "calc_P (int i) q (int (length dh)) dh base = Inr (spec_P base q dh (length dh) (Suc i))"
  using assms gt_partial [of "int i" dh q False] gt_full [of dh q]
  by (simp add: calc_P_def spec_P_def matvec4_translation_column Let_def)

lemma jacobian_loop_fold:
  assumes "\<forall>i\<in>set xs. calc_Z (int i) q dh base = Inr (Z i) \<and> calc_P (int i) q n dh base = Inr (P i)"
  shows "jacobian_loop q n dh base xs J = Inr (fold (\<lambda>i J. J[i := (cross (Z i) (P i), Z i)]) xs J)"
  using assms by (induction xs arbitrary: J) (simp_all add: Let_def)

lemma fold_update_upt:
  "k \<le> length J \<Longrightarrow> fold (\<lambda>i J. J[i := f i]) [0..<k] J = map f [0..<k] @ drop k J"
proof (induction k)
  case 0
  then show ?case by simp
next
  case (Suc k)
  then have "k < length J" by simp
  then show ?case using Suc
    by (simp add: list_update_append Cons_nth_drop_Suc [symmetric] )
qed

lemma construct_jacobian_columns:
  assumes "length dh \<le> length q"
  shows "construct_jacobian (int (length dh)) q dh base =
         Inr (map (\<lambda>i. (cross (spec_Z base q dh (Suc i)) (spec_P base q dh (length dh) (Suc i)),
                         spec_Z base q dh (Suc i))) [0..<length dh])"
proof -
  have "\<forall>i\<in>set [0..<length dh].
          calc_Z (int i) q dh base = Inr (spec_Z base q dh (Suc i)) \<and>
          calc_P (int i) q (int (length dh)) dh base = Inr (spec_P base q dh (length dh) (Suc i))"
    using assms by (auto simp add: calc_Z_inclusive calc_P_inclusive)
  from jacobian_loop_fold [OF this] show ?thesis
    by (simp add: construct_jacobian_def py_range_def fold_update_upt)
qed

subsection \<open>Two joint angles that give different transforms\<close>

lemma first_column_flip:
  assumes "isometry3 R"
  shows "matvec3 R (Vec3 1 0 0) \<noteq> matvec3 R (Vec3 (-1) 0 0)"
proof
  assume eq: "matvec3 R (Vec3 1 0 0) = matvec3 R (Vec3 (-1) 0 0)"
  obtain r1 r2 r3 where R: "R = Mat3 r1 r2 r3" by (cases R)
  obtain a1 a2 a3 where r1: "r1 = Vec3 a1 a2 a3" by (cases r1)
  obtain b1 b2 b3 where r2: "r2 = Vec3 b1 b2 b3" by (cases r2)
  obtain c1 c2 c3 where r3: "r3 = Vec3 c1 c2 c3" by (cases r3)
  from eq have "a1 = 0" "b1 = 0" "c1 = 0" unfolding R r1 r2 r3 by simp_all
  then have "norm_sq3 (matvec3 R (Vec3 1 0 0)) = 0" unfolding R r1 r2 r3 by simp
  moreover from assms have "norm_sq3 (matvec3 R (Vec3 1 0 0)) = norm_sq3 (Vec3 1 0 0)"
    unfolding isometry3_def by blast
  ultimately show False by simp
qed

lemma spec_T_first_column:
  "matvec3 (block33 (modified_dh 0 al a d)) (Vec3 1 0 0) = Vec3 1 0 0"
  "matvec3 (block33 (modified_dh pi al a d)) (Vec3 1 0 0) = Vec3 (-1) 0 0"
  by (simp_all add: modified_dh_def)

lemma chain_step_differs:
  assumes "q0 ! k = 0" and "q1 ! k = pi"
  shows "matmul4 M' (spec_T q0 dh k) \<noteq> matmul4 (spec_chain q dh k) (spec_T q1 dh k)
         \<or> M' \<noteq> spec_chain q dh k"
proof (cases "M' = spec_chain q dh k")
  case False
  then show ?thesis by simp
next
  case True
  let ?R = "block33 (spec_chain q dh k)"
  have iso: "isometry3 ?R" by (rule isometry3_spec_chain)
  have "matmul4 (spec_chain q dh k) (spec_T q0 dh k)
          \<noteq> matmul4 (spec_chain q dh k) (spec_T q1 dh k)"
  proof
    assume "matmul4 (spec_chain q dh k) (spec_T q0 dh k)
              = matmul4 (spec_chain q dh k) (spec_T q1 dh k)"
    then have "block33 (matmul4 (spec_chain q dh k) (spec_T q0 dh k))
              = block33 (matmul4 (spec_chain q dh k) (spec_T q1 dh k))" by simp
    then have "matmul3 ?R (block33 (spec_T q0 dh k)) = matmul3 ?R (block33 (spec_T q1 dh k))"
      by (simp add: block33_matmul4 bottom_row_spec_T)
    then have "matvec3 (matmul3 ?R (block33 (spec_T q0 dh k))) (Vec3 1 0 0)
             = matvec3 (matmul3 ?R (block33 (spec_T q1 dh k))) (Vec3 1 0 0)" by simp
    then have "matvec3 ?R (Vec3 1 0 0) = matvec3 ?R (Vec3 (-1) 0 0)"
      using assms by (simp add: matvec3_matmul3 spec_T_def spec_T_first_column)
    with first_column_flip [OF iso] show False by simp
  qed
  with True show ?thesis by simp
qed

section \<open>The claims about the transform builder and the Jacobian assembler\<close>

subsection \<open>C1: the columns of the Jacobian\<close>

text \<open>
  C1, as stated, takes \<open>Z_i\<close> and \<open>P_i\<close> from the transform that composes the joints
  \<open>0..i-1\<close> only. The source calls the builder with \<open>level = i\<close>, which differs from
  \<open>len(DH_params)\<close>, so the builder adds the transform of joint \<open>i\<close> itself. For one joint
  with \<open>d = 1\<close> and \<open>\<alpha> = \<pi>/2\<close> at angle 0 and the identity base, the source returns the
  column \<open>[0, 0, 0, 0, -1, 0]\<close>, while the column of the claim is \<open>[1, 0, 0, 0, 0, 1]\<close>.
\<close>

theorem c1_counterexample:
  "construct_jacobian 1 [0] [\<lparr>dh_a = 0, dh_d = 1, dh_alpha = pi / 2\<rparr>] identity4
     = Inr [(Vec3 0 0 0, Vec3 0 (-1) 0)] \<and>
   (cross (spec_Z identity4 [0] [\<lparr>dh_a = 0, dh_d = 1, dh_alpha = pi / 2\<rparr>] 0)
          (spec_P identity4 [0] [\<lparr>dh_a = 0, dh_d = 1, dh_alpha = pi / 2\<rparr>] 1 0),
    spec_Z identity4 [0] [\<lparr>dh_a = 0, dh_d = 1, dh_alpha = pi / 2\<rparr>] 0)
     = (Vec3 1 0 0, Vec3 0 0 1)"
  by (simp add: construct_jacobian_def py_range_def calc_Z_def calc_P_def
      get_transform_to_base_from_def joint_step_def py_index_def joint_matrix_def
      identity4_def spec_Z_def spec_P_def spec_T_def modified_dh_def Let_def)

text \<open>
  C1, amended: for \<open>numJoints = len(dhTable) \<le> len(q)\<close> and every joint index
  \<open>i < numJoints\<close>, \<open>construct_jacobian\<close> returns a Jacobian with \<open>numJoints\<close> columns whose
  column \<open>i\<close> is \<open>[Z_i \<times> P_i ; Z_i]\<close>, where \<open>Z_i\<close> is the z column of the rotation block
  of \<open>basePose \<cdot> T_0 \<cdot> ... \<cdot> T_i\<close> (the joints \<open>0..i\<close>, joint \<open>i\<close> included) and \<open>P_i\<close> is the
  position of \<open>basePose \<cdot> T_0 \<cdot> ... \<cdot> T_(numJoints-1)\<close> minus the position of
  \<open>basePose \<cdot> T_0 \<cdot> ... \<cdot> T_i\<close>.
\<close>

theorem c1_jacobian_columns:
  assumes "length dh \<le> length q" and "i < length dh"
  shows "\<exists>J. construct_jacobian (int (length dh)) q dh base = Inr J \<and>
             length J = length dh \<and>
             J ! i = (cross (spec_Z base q dh (Suc i)) (spec_P base q dh (length dh) (Suc i)),
                      spec_Z base q dh (Suc i))"
  using assms by (simp add: construct_jacobian_columns)

text \<open>
  The amended C1 at one joint with \<open>d = 1\<close>, \<open>\<alpha> = \<pi>/2\<close>, angle 0 and the identity base.
\<close>

theorem c1_jacobian_columns_witness:
  "length [\<lparr>dh_a = 0, dh_d = 1, dh_alpha = pi / 2\<rparr>] \<le> length [0::real] \<and>
   (0::nat) < length [\<lparr>dh_a = 0, dh_d = 1, dh_alpha = pi / 2\<rparr>] \<and>
   (\<exists>J. construct_jacobian 1 [0] [\<lparr>dh_a = 0, dh_d = 1, dh_alpha = pi / 2\<rparr>] identity4 = Inr J \<and>
        length J = 1 \<and> J ! 0 = (Vec3 0 0 0, Vec3 0 (-1) 0))"
  using c1_jacobian_columns [of "[\<lparr>dh_a = 0, dh_d = 1, dh_alpha = pi / 2\<rparr>]" "[0]" 0 identity4]
  by (simp add: spec_Z_def spec_P_def spec_T_def modified_dh_def identity4_def)

subsection \<open>C2: the transform through zero joints\<close>

text \<open>
  C2, as stated, says that \<open>get_transform_to_base_from(0, q, dhTable)\<close> is the identity for
  every \<open>q\<close> and every table. With a table of one joint (\<open>a = 1\<close>) and \<open>q = [0]\<close> the level 0
  differs from the length of the table, the flag is forced on, and the result is the
  transform of joint 0, whose translation column is \<open>(1, 0, 0)\<close>.
\<close>

theorem c2_counterexample:
  "get_transform_to_base_from 0 [0] [\<lparr>dh_a = 1, dh_d = 0, dh_alpha = 0\<rparr>] False
     = Inr (Mat4 (Vec4 1 0 0 1) (Vec4 0 1 0 0) (Vec4 0 0 1 0) (Vec4 0 0 0 1)) \<and>
   get_transform_to_base_from 0 [0] [\<lparr>dh_a = 1, dh_d = 0, dh_alpha = 0\<rparr>] False
     \<noteq> Inr identity4"
  by (simp add: get_transform_to_base_from_def py_range_def joint_step_def py_index_def
      joint_matrix_def identity4_def)

text \<open>
  C2, amended: \<open>get_transform_to_base_from(0, q, dhTable)\<close> returns the identity when
  \<open>dhTable\<close> is empty (then \<open>level = len(dhTable)\<close> and the default flag stays off); when
  \<open>dhTable\<close> and \<open>q\<close> are not empty it returns the single per-joint transform \<open>T_0\<close> of
  \<open>q[0]\<close> and \<open>dhTable[0]\<close>, whatever flag is passed.
\<close>

theorem c2_amended:
  "(dh = [] \<longrightarrow> get_transform_to_base_from 0 q dh False = Inr identity4) \<and>
   (dh \<noteq> [] \<and> q \<noteq> [] \<longrightarrow> get_transform_to_base_from 0 q dh flag = Inr (spec_T q dh 0))"
proof (intro conjI impI)
  assume "dh = []"
  then show "get_transform_to_base_from 0 q dh False = Inr identity4"
    by (simp add: get_transform_to_base_from_def py_range_def)
next
  assume "dh \<noteq> [] \<and> q \<noteq> []"
  then have "(0::int) < int (length dh)" "(0::int) < int (length q)" by auto
  from gt_partial [OF _ this, of flag]
  show "get_transform_to_base_from 0 q dh flag = Inr (spec_T q dh 0)"
    by (simp add: matmul4_identity_left)
qed

text \<open>
  The amended C2 at an empty table, and at a table of one joint.
\<close>

theorem c2_amended_witness:
  "([]::dh_param list) = [] \<and> get_transform_to_base_from 0 [1, 2] [] False = Inr identity4 \<and>
   [\<lparr>dh_a = 1, dh_d = 0, dh_alpha = 0\<rparr>] \<noteq> [] \<and> [0::real] \<noteq> [] \<and>
   get_transform_to_base_from 0 [0] [\<lparr>dh_a = 1, dh_d = 0, dh_alpha = 0\<rparr>] True
     = Inr (Mat4 (Vec4 1 0 0 1) (Vec4 0 1 0 0) (Vec4 0 0 1 0) (Vec4 0 0 0 1))"
  using c2_amended [of "[]" "[1, 2]"]
    c2_amended [of "[\<lparr>dh_a = 1, dh_d = 0, dh_alpha = 0\<rparr>]" "[0]" True]
  by (simp add: spec_T_def modified_dh_def)

subsection \<open>C3: the full chain\<close>

text \<open>
  C3: for a joint-angle vector \<open>q\<close> that has the entries \<open>q[0..N-1]\<close> the claim reads,
  \<open>N = len(dh)\<close>, \<open>get_transform_to_base_from(N, q, dh)\<close> returns the product
  \<open>T_0 \<cdot> T_1 \<cdot> ... \<cdot> T_(N-1)\<close> from the identity, each \<open>T_i\<close> the modified-DH matrix of the
  specification built from \<open>q[i]\<close> and \<open>dh[i]\<close>; and the result is the same for every other
  vector that agrees with \<open>q\<close> on the indices below \<open>N\<close>.
\<close>

theorem c3_full_chain:
  assumes "length dh \<le> length q"
  shows "get_transform_to_base_from (int (length dh)) q dh False
           = Inr (spec_chain q dh (length dh)) \<and>
         (\<forall>q'. length dh \<le> length q' \<and> take (length dh) q' = take (length dh) q \<longrightarrow>
            get_transform_to_base_from (int (length dh)) q' dh False
              = get_transform_to_base_from (int (length dh)) q dh False)"
proof (intro conjI allI impI)
  show "get_transform_to_base_from (int (length dh)) q dh False
          = Inr (spec_chain q dh (length dh))"
    using assms by (rule gt_full)
next
  fix q'
  assume h: "length dh \<le> length q' \<and> take (length dh) q' = take (length dh) q"
  have "\<forall>i<length dh. q' ! i = q ! i"
  proof (intro allI impI)
    fix i assume "i < length dh"
    then have "q' ! i = take (length dh) q' ! i" "q ! i = take (length dh) q ! i" by simp_all
    with h show "q' ! i = q ! i" by simp
  qed
  then have "spec_chain q' dh (length dh) = spec_chain q dh (length dh)"
    by (rule spec_chain_cong)
  with h assms show "get_transform_to_base_from (int (length dh)) q' dh False
          = get_transform_to_base_from (int (length dh)) q dh False"
    by (simp add: gt_full)
qed

text \<open>
  C3 at a table of two joints, with joint-angle vectors of three and of four entries
  that agree on the first two.
\<close>

theorem c3_full_chain_witness:
  "length [\<lparr>dh_a = 1, dh_d = 0, dh_alpha = 0\<rparr>, \<lparr>dh_a = 0, dh_d = 2, dh_alpha = pi / 2\<rparr>]
     \<le> length [0, pi, 5 :: real] \<and>
   get_transform_to_base_from 2 [0, pi, 5]
       [\<lparr>dh_a = 1, dh_d = 0, dh_alpha = 0\<rparr>, \<lparr>dh_a = 0, dh_d = 2, dh_alpha = pi / 2\<rparr>] False
     = Inr (Mat4 (Vec4 (-1) 0 0 1) (Vec4 0 0 (-1) (-2)) (Vec4 0 (-1) 0 0) (Vec4 0 0 0 1)) \<and>
   get_transform_to_base_from 2 [0, pi, 7, 9]
       [\<lparr>dh_a = 1, dh_d = 0, dh_alpha = 0\<rparr>, \<lparr>dh_a = 0, dh_d = 2, dh_alpha = pi / 2\<rparr>] False
     = Inr (Mat4 (Vec4 (-1) 0 0 1) (Vec4 0 0 (-1) (-2)) (Vec4 0 (-1) 0 0) (Vec4 0 0 0 1))"
  using c3_full_chain [of "[\<lparr>dh_a = 1, dh_d = 0, dh_alpha = 0\<rparr>, \<lparr>dh_a = 0, dh_d = 2, dh_alpha = pi / 2\<rparr>]"
      "[0, pi, 5]"]
  by (simp add: numeral_2_eq_2 spec_T_def modified_dh_def identity4_def)

subsection \<open>C8: a level below the length of the table is inclusive\<close>

text \<open>
  C8: for \<open>0 \<le> level < len(DH_params)\<close> the builder returns, for every pose vector that
  has an entry at \<open>level\<close> and whatever flag the caller passes, the product of the
  \<open>level + 1\<close> transforms of the joints \<open>0..level\<close>; and there are two pose vectors that
  differ at the index \<open>level\<close> only and give different results.
\<close>

theorem c8_inclusive_below_full:
  assumes "0 \<le> level" and "level < int (length dh)"
  shows "(\<forall>pose. level < int (length pose) \<longrightarrow>
            get_transform_to_base_from level pose dh flag
              = Inr (spec_chain pose dh (nat level + 1))) \<and>
         (\<exists>pose1 pose2. length pose1 = length pose2 \<and>
            (\<forall>j<length pose1. j \<noteq> nat level \<longrightarrow> pose1 ! j = pose2 ! j) \<and>
            get_transform_to_base_from level pose1 dh flag
              \<noteq> get_transform_to_base_from level pose2 dh flag)"
proof (intro conjI allI impI)
  fix pose :: "real list" assume "level < int (length pose)"
  with assms show "get_transform_to_base_from level pose dh flag
              = Inr (spec_chain pose dh (nat level + 1))"
    by (rule gt_partial)
next
  let ?k = "nat level"
  let ?q0 = "replicate (length dh) (0::real)"
  let ?q1 = "?q0[?k := pi]"
  from assms have k: "?k < length dh" by simp
  have len: "level < int (length ?q0)" "level < int (length ?q1)" using assms by simp_all
  have r0: "get_transform_to_base_from level ?q0 dh flag = Inr (spec_chain ?q0 dh (?k + 1))"
    using assms len(1) by (rule gt_partial)
  have r1: "get_transform_to_base_from level ?q1 dh flag = Inr (spec_chain ?q1 dh (?k + 1))"
    using assms len(2) by (rule gt_partial)
  have same: "spec_chain ?q0 dh ?k = spec_chain ?q1 dh ?k"
    by (rule spec_chain_cong) simp
  have "?q0 ! ?k = 0" "?q1 ! ?k = pi" using k by simp_all
  from chain_step_differs [OF this, of "spec_chain ?q0 dh ?k" dh ?q1] same
  have "spec_chain ?q0 dh (?k + 1) \<noteq> spec_chain ?q1 dh (?k + 1)" by simp
  with r0 r1 have "get_transform_to_base_from level ?q0 dh flag
              \<noteq> get_transform_to_base_from level ?q1 dh flag" by simp
  moreover have "length ?q0 = length ?q1" by simp
  moreover have "\<forall>j<length ?q0. j \<noteq> ?k \<longrightarrow> ?q0 ! j = ?q1 ! j" by simp
  ultimately show "\<exists>pose1 pose2. length pose1 = length pose2 \<and>
            (\<forall>j<length pose1. j \<noteq> nat level \<longrightarrow> pose1 ! j = pose2 ! j) \<and>
            get_transform_to_base_from level pose1 dh flag
              \<noteq> get_transform_to_base_from level pose2 dh flag"
    by blast
qed

text \<open>
  C8 at level 1 of a table of three joints.
\<close>

theorem c8_inclusive_below_full_witness:
  "(0::int) \<le> 1 \<and>
   (1::int) < int (length [\<lparr>dh_a = 1, dh_d = 0, dh_alpha = 0\<rparr>,
                           \<lparr>dh_a = 0, dh_d = 2, dh_alpha = pi / 2\<rparr>,
                           \<lparr>dh_a = 3, dh_d = 0, dh_alpha = 0\<rparr>]) \<and>
   (1::int) < int (length [0, pi, 5 :: real]) \<and>
   get_transform_to_base_from 1 [0, pi, 5]
       [\<lparr>dh_a = 1, dh_d = 0, dh_alpha = 0\<rparr>, \<lparr>dh_a = 0, dh_d = 2, dh_alpha = pi / 2\<rparr>,
        \<lparr>dh_a = 3, dh_d = 0, dh_alpha = 0\<rparr>] False
     = Inr (Mat4 (Vec4 (-1) 0 0 1) (Vec4 0 0 (-1) (-2)) (Vec4 0 (-1) 0 0) (Vec4 0 0 0 1))"
proof -
  let ?dh = "[\<lparr>dh_a = 1, dh_d = 0, dh_alpha = 0\<rparr>, \<lparr>dh_a = 0, dh_d = 2, dh_alpha = pi / 2\<rparr>,
              \<lparr>dh_a = 3, dh_d = 0, dh_alpha = 0\<rparr>]"
  have h1: "(0::int) \<le> 1" by simp
  have h2: "(1::int) < int (length ?dh)" by simp
  have h3: "(1::int) < int (length [0, pi, 5 :: real])" by simp
  from c8_inclusive_below_full [OF h1 h2, of False, THEN conjunct1, THEN spec, of "[0, pi, 5]"] h3
  have "get_transform_to_base_from 1 [0, pi, 5] ?dh False
          = Inr (spec_chain [0, pi, 5] ?dh (nat 1 + 1))" by blast
  then show ?thesis
    by (simp add: numeral_2_eq_2 spec_T_def modified_dh_def identity4_def)
qed

section \<open>Properties of the entry point and of the scorer\<close>

subsection \<open>The entry point on seven joints\<close>

lemma set_block33_translation: "translation_column (set_block33 A R) = translation_column A"
proof -
  obtain a1 a2 a3 a4 where A: "A = Mat4 a1 a2 a3 a4" by (cases A)
  obtain r1 r2 r3 where R: "R = Mat3 r1 r2 r3" by (cases R)
  show ?thesis unfolding A R
    by (cases a1; cases a2; cases a3; cases a4; cases r1; cases r2; cases r3) simp
qed

lemma set_block33_block: "block33 (set_block33 A R) = R"
proof -
  obtain a1 a2 a3 a4 where A: "A = Mat4 a1 a2 a3 a4" by (cases A)
  obtain r1 r2 r3 where R: "R = Mat3 r1 r2 r3" by (cases R)
  show ?thesis unfolding A R
    by (cases a1; cases a2; cases a3; cases a4; cases r1; cases r2; cases r3) simp
qed

lemma set_block33_bottom: "bottom_row (set_block33 A R) = bottom_row A"
proof -
  obtain a1 a2 a3 a4 where A: "A = Mat4 a1 a2 a3 a4" by (cases A)
  obtain r1 r2 r3 where R: "R = Mat3 r1 r2 r3" by (cases R)
  show ?thesis unfolding A R
    by (cases a1; cases a2; cases a3; cases a4; cases r1; cases r2; cases r3) simp
qed

lemma gt_seven:
  assumes "length dh = 7" and "length q = 7"
  shows "get_transform_to_base_from 7 q dh False = Inr (spec_chain q dh 7)"
  using gt_full [of dh q] assms by simp

lemma construct_jacobian_seven:
  assumes "length dh = 7" and "length q = 7"
  shows "construct_jacobian 7 q dh base =
         Inr (map (\<lambda>i. (cross (spec_Z base q dh (Suc i)) (spec_P base q dh 7 (Suc i)),
                         spec_Z base q dh (Suc i))) [0..<7])"
  using construct_jacobian_columns [of dh q base] assms by simp

lemma your_fk_valid:
  assumes "length dh = 7" and "length q = 7"
  shows "your_fk gmfp gpfm base_pos dh q =
         Inr (gpfm (set_block33 (matmul4 (gmfp (base_pos @ [0, 0, 0, 1])) (spec_chain q dh 7))
                      (matmul3 (block33 (matmul4 (gmfp (base_pos @ [0, 0, 0, 1]))
                                                 (spec_chain q dh 7))) adjustment)),
              map (\<lambda>i. (cross (spec_Z (gmfp (base_pos @ [0, 0, 0, 1])) q dh (Suc i))
                               (spec_P (gmfp (base_pos @ [0, 0, 0, 1])) q dh 7 (Suc i)),
                         spec_Z (gmfp (base_pos @ [0, 0, 0, 1])) q dh (Suc i))) [0..<7])"
  using assms
  by (simp add: your_fk_def Let_def gt_seven construct_jacobian_seven)

lemma your_fk_invalid:
  assumes "length dh \<noteq> 7 \<or> length q \<noteq> 7"
  shows "your_fk gmfp gpfm base_pos dh q = Inl AssertionError"
  using assms by (auto simp add: your_fk_def Let_def)

lemma spec_Z_unit:
  assumes "block33 base = identity3"
  shows "norm_sq3 (spec_Z base q dh k) = 1"
proof -
  have "block33 (matmul4 base (spec_chain q dh k))
          = matmul3 identity3 (block33 (spec_chain q dh k))"
    using assms by (simp add: block33_matmul4 bottom_row_spec_chain)
  moreover have "isometry3 (matmul3 identity3 (block33 (spec_chain q dh k)))"
    by (simp add: isometry3_matmul3 isometry3_identity isometry3_spec_chain)
  ultimately have "isometry3 (block33 (matmul4 base (spec_chain q dh k)))" by simp
  then have "norm_sq3 (matvec3 (block33 (matmul4 base (spec_chain q dh k))) (Vec3 0 0 1))
               = norm_sq3 (Vec3 0 0 1)"
    unfolding isometry3_def by blast
  then show ?thesis by (simp add: spec_Z_def matvec3_third_column)
qed

lemma panda_length: "length get_panda_DH_params = 7"
  by (simp add: get_panda_DH_params_def)

lemma calc_Z_seven:
  assumes "length dh = 7" and "length q = 7" and "i < 7"
  shows "calc_Z (int i) q dh base = Inr (spec_Z base q dh (Suc i))"
  using assms by (simp add: calc_Z_inclusive)

lemma calc_P_seven:
  assumes "length dh = 7" and "length q = 7" and "i < 7"
  shows "calc_P (int i) q 7 dh base = Inr (spec_P base q dh 7 (Suc i))"
  using calc_P_inclusive [of i dh q base] assms by simp

lemma your_fk_no_index_error:
  "your_fk gmfp gpfm base_pos dh q \<noteq> Inl IndexError"
proof (cases "length dh = 7 \<and> length q = 7")
  case True
  then show ?thesis by (simp add: your_fk_valid)
next
  case False
  then have "length dh \<noteq> 7 \<or> length q \<noteq> 7" by simp
  then show ?thesis by (simp add: your_fk_invalid)
qed

lemma joint_loop_full:
  assumes "length dh \<le> length pose"
  shows "joint_loop pose dh (py_range (int (length dh))) identity4
           = Inr (spec_chain pose dh (length dh))"
  using assms by (simp add: py_range_def joint_loop_upt)

subsection \<open>The score lists\<close>

lemma track_ok_penalise:
  assumes "track_ok n m k xs" and "0 \<le> p"
  shows "track_ok n m k (penalise xs k p)"
proof -
  from assms(1) have len: "length xs = n" and up: "\<forall>j<n. xs ! j \<le> m"
    and lo: "\<forall>j<n. j \<noteq> k \<longrightarrow> 0 \<le> xs ! j"
    by (simp_all add: track_ok_def)
  have "penalise xs k p ! j \<le> m" if "j < n" for j
  proof (cases "j = k")
    case True
    from up that have "xs ! j \<le> m" by simp
    with assms(2) True that len show ?thesis by (simp add: penalise_def)
  next
    case False
    with up that show ?thesis by (simp add: penalise_def)
  qed
  moreover have "0 \<le> penalise xs k p ! j" if "j < n" "j \<noteq> k" for j
    using lo that by (simp add: penalise_def)
  ultimately show ?thesis using len by (simp add: track_ok_def penalise_def)
qed

lemma all_ok_track_ok: "all_ok n m xs \<Longrightarrow> track_ok n m k xs"
  by (simp add: all_ok_def track_ok_def)

lemma track_ok_clamp:
  assumes "track_ok n m k xs" and "0 \<le> m"
  shows "all_ok n m (clamp_score xs k)"
proof -
  from assms(1) have len: "length xs = n" and up: "\<forall>j<n. xs ! j \<le> m"
    and lo: "\<forall>j<n. j \<noteq> k \<longrightarrow> 0 \<le> xs ! j"
    by (simp_all add: track_ok_def)
  have "0 \<le> clamp_score xs k ! j \<and> clamp_score xs k ! j \<le> m" if "j < n" for j
  proof (cases "j = k")
    case True
    from up that have "xs ! j \<le> m" by simp
    with assms(2) True that len show ?thesis by (simp add: clamp_score_def)
  next
    case False
    with up lo that show ?thesis by (simp add: clamp_score_def)
  qed
  then show ?thesis using len by (simp add: all_ok_def clamp_score_def)
qed

lemma all_ok_nth: "all_ok n m xs \<Longrightarrow> k < n \<Longrightarrow> 0 \<le> xs ! k \<and> xs ! k \<le> m"
  by (simp add: all_ok_def)

lemma score_case_running:
  assumes "score_case fk pe je fk_dict penalty k i st = Inr st'"
    and "running_ok n k st" and "0 \<le> penalty"
  shows "running_ok n k st'"
  using assms
  by (auto simp add: score_case_def running_ok_def Let_def track_ok_penalise
      split: sum.splits prod.splits if_splits)

lemma score_case_printed:
  assumes "score_case fk pe je fk_dict penalty k i st = Inr st'"
  shows "printed st' = printed st"
  using assms
  by (auto simp add: score_case_def Let_def split: sum.splits prod.splits if_splits)

lemma score_cases_printed:
  assumes "score_cases fk pe je fk_dict penalty k xs st = Inr st'"
  shows "printed st' = printed st"
  using assms
proof (induction xs arbitrary: st)
  case Nil
  then show ?case by simp
next
  case (Cons i xs)
  from Cons.prems obtain st1 where
    s1: "score_case fk pe je fk_dict penalty k i st = Inr st1" and
    s2: "score_cases fk pe je fk_dict penalty k xs st1 = Inr st'"
    by (auto split: sum.splits)
  from Cons.IH [OF s2] score_case_printed [OF s1] show ?case by simp
qed

lemma score_cases_running:
  assumes "score_cases fk pe je fk_dict penalty k xs st = Inr st'"
    and "running_ok n k st" and "0 \<le> penalty"
  shows "running_ok n k st'"
  using assms
proof (induction xs arbitrary: st)
  case Nil
  then show ?case by simp
next
  case (Cons i xs)
  from Cons.prems(1) obtain st1 where
    s1: "score_case fk pe je fk_dict penalty k i st = Inr st1" and
    s2: "score_cases fk pe je fk_dict penalty k xs st1 = Inr st'"
    by (auto split: sum.splits)
  from score_case_running [OF s1 Cons.prems(2,3)] have "running_ok n k st1" .
  from Cons.IH [OF s2 this Cons.prems(3)] show ?case .
qed

lemma score_max_nonneg:
  "0 \<le> FK_SCORE_MAX / real n" "0 \<le> JACOBIAN_SCORE_MAX / real n"
  by (simp_all add: FK_SCORE_MAX_def JACOBIAN_SCORE_MAX_def)

lemma penalty_nonneg:
  assumes "py_truediv TASK1_SCORE_MAX (real n) = Inr share"
    and "py_truediv share (3 / 10 * real c) = Inr penalty"
  shows "0 \<le> penalty"
proof -
  from assms(1) have "share = TASK1_SCORE_MAX / real n"
    by (simp add: py_truediv_def split: if_splits)
  then have "0 \<le> share"
    by (simp add: TASK1_SCORE_MAX_def FK_SCORE_MAX_def JACOBIAN_SCORE_MAX_def)
  moreover from assms(2) have "penalty = share / (3 / 10 * real c)"
    by (simp add: py_truediv_def split: if_splits)
  ultimately show ?thesis by simp
qed

lemma score_file_ok:
  assumes "score_file fk pe je n k fk_dict st = Inr st'"
    and "state_ok n st" and "k < n"
  shows "state_ok n st' \<and> length (printed st') = Suc (length (printed st))"
proof -
  from assms(1) obtain share penalty st1 where
    sh: "py_truediv TASK1_SCORE_MAX (real n) = Inr share" and
    pe: "py_truediv share (3 / 10 * real (length (joint_poses fk_dict))) = Inr penalty" and
    cs: "score_cases fk pe je fk_dict penalty k [0..<length (joint_poses fk_dict)] st = Inr st1" and
    st': "st' = st1\<lparr>fk_score := clamp_score (fk_score st1) k,
                     jacobian_score := clamp_score (jacobian_score st1) k,
                     printed := printed st1 @
                        [(clamp_score (fk_score st1) k ! k, FK_SCORE_MAX / real n,
                          clamp_score (jacobian_score st1) k ! k,
                          JACOBIAN_SCORE_MAX / real n)]\<rparr>"
    by (auto simp add: score_file_def Let_def split: sum.splits)
  have p: "0 \<le> penalty" using sh pe by (rule penalty_nonneg)
  have "running_ok n k st"
    using assms(2) by (simp add: state_ok_def running_ok_def all_ok_track_ok)
  from score_cases_running [OF cs this p] have r: "running_ok n k st1" .
  have f: "all_ok n (FK_SCORE_MAX / real n) (clamp_score (fk_score st1) k)"
    using r by (simp add: running_ok_def track_ok_clamp score_max_nonneg)
  have j: "all_ok n (JACOBIAN_SCORE_MAX / real n) (clamp_score (jacobian_score st1) k)"
    using r by (simp add: running_ok_def track_ok_clamp score_max_nonneg)
  have l: "line_ok n (clamp_score (fk_score st1) k ! k, FK_SCORE_MAX / real n,
                      clamp_score (jacobian_score st1) k ! k, JACOBIAN_SCORE_MAX / real n)"
    using all_ok_nth [OF f assms(3)] all_ok_nth [OF j assms(3)] by (simp add: line_ok_def)
  have pr: "\<forall>l\<in>set (printed st1). line_ok n l" using r by (simp add: running_ok_def)
  have len: "length (printed st1) = length (printed st)"
    using score_cases_printed [OF cs] by simp
  show ?thesis unfolding st' using f j l pr len by (simp add: state_ok_def)
qed


lemma score_files_ok:
  assumes "score_files fk pe je n xs st = Inr st'"
    and "state_ok n st" and "\<forall>x\<in>set xs. fst x < n"
  shows "state_ok n st' \<and> length (printed st') = length (printed st) + length xs"
  using assms
proof (induction xs arbitrary: st)
  case Nil
  then show ?case by simp
next
  case (Cons x xs)
  obtain k fk_dict where x: "x = (k, fk_dict)" by (cases x)
  from Cons.prems(1) obtain st1 where
    s1: "score_file fk pe je n k fk_dict st = Inr st1" and
    s2: "score_files fk pe je n xs st1 = Inr st'"
    unfolding x by (auto split: sum.splits)
  from Cons.prems(3) have k: "k < n" and rest: "\<forall>x\<in>set xs. fst x < n"
    unfolding x by simp_all
  from score_file_ok [OF s1 Cons.prems(2) k]
  have ok1: "state_ok n st1" and len1: "length (printed st1) = Suc (length (printed st))"
    by simp_all
  from Cons.IH [OF s2 ok1 rest] len1 show ?case by simp
qed

lemma total_score_sum:
  "foldl (\<lambda>total file_id. total + xs ! file_id) a [0..<k] = a + (\<Sum>i<k. (xs ! i :: real))"
  by (induction k) simp_all

lemma total_score_bounds:
  assumes "all_ok n (m / real n) xs" and "0 \<le> m"
  shows "0 \<le> total_score xs n \<and> total_score xs n \<le> m"
proof -
  have t: "total_score xs n = (\<Sum>i<n. xs ! i)"
    by (simp add: total_score_def total_score_sum)
  from assms(1) have b: "\<forall>i<n. 0 \<le> xs ! i \<and> xs ! i \<le> m / real n"
    by (simp add: all_ok_def)
  have "0 \<le> (\<Sum>i<n. xs ! i)"
    using b by (intro sum_nonneg) simp
  moreover have "(\<Sum>i<n. xs ! i) \<le> (\<Sum>i<n. m / real n)"
    using b by (intro sum_mono) simp
  moreover have "(\<Sum>i<n. m / real n) \<le> m"
    using assms(2) by (cases "n = 0") simp_all
  ultimately show ?thesis using t by simp
qed

lemma initial_state_ok:
  "state_ok n \<lparr>fk_score = replicate n (FK_SCORE_MAX / real n),
               fk_error_cnt = replicate n 0,
               jacobian_score = replicate n (JACOBIAN_SCORE_MAX / real n),
               jacobian_error_cnt = replicate n 0,
               printed = []\<rparr>"
  by (simp add: state_ok_def all_ok_def score_max_nonneg)

section \<open>The claims about the entry point and the scorer\<close>

subsection \<open>C4: the dimension check\<close>

text \<open>
  C4: when \<open>len(dhTable) \<noteq> 7\<close> or \<open>len(jointAngles) \<noteq> 7\<close>, \<open>your_fk\<close> raises the
  \<open>AssertionError\<close> of its input check and returns nothing (in particular it does not
  reach the \<open>IndexError\<close> that the transform builder would raise on a short vector);
  when both lengths are 7 it returns a pose together with a Jacobian of 7 columns.
  The two helpers of \<^verbatim>\<open>utils/bullet_utils.py\<close> are arbitrary total functions here.
\<close>

theorem c4_dimension_check:
  "(length dh \<noteq> 7 \<or> length q \<noteq> 7 \<longrightarrow>
      your_fk gmfp gpfm base_pos dh q = Inl AssertionError) \<and>
   (length dh = 7 \<and> length q = 7 \<longrightarrow>
      (\<exists>pose_7d jacobian. your_fk gmfp gpfm base_pos dh q = Inr (pose_7d, jacobian) \<and>
         length jacobian = 7))"
proof (intro conjI impI)
  assume "length dh \<noteq> 7 \<or> length q \<noteq> 7"
  then show "your_fk gmfp gpfm base_pos dh q = Inl AssertionError" by (rule your_fk_invalid)
next
  assume "length dh = 7 \<and> length q = 7"
  then have "length dh = 7" "length q = 7" by simp_all
  from your_fk_valid [OF this, of gmfp gpfm base_pos]
  show "\<exists>pose_7d jacobian. your_fk gmfp gpfm base_pos dh q = Inr (pose_7d, jacobian) \<and>
         length jacobian = 7" by simp
qed

text \<open>
  C4 at the table of the robot, with one angle and with seven.
\<close>

theorem c4_dimension_check_witness:
  "length [0::real] \<noteq> 7 \<and>
   your_fk spec_base_transform translation_column [0, 0, 0] get_panda_DH_params [0]
     = Inl AssertionError \<and>
   length get_panda_DH_params = 7 \<and> length [0, 0, 0, 0, 0, 0, 0 :: real] = 7 \<and>
   (\<exists>pose_7d jacobian.
      your_fk spec_base_transform translation_column [0, 0, 0] get_panda_DH_params
        [0, 0, 0, 0, 0, 0, 0] = Inr (pose_7d, jacobian) \<and> length jacobian = 7)"
  using c4_dimension_check [of get_panda_DH_params "[0]" spec_base_transform translation_column
      "[0, 0, 0]"]
    c4_dimension_check [of get_panda_DH_params "[0, 0, 0, 0, 0, 0, 0]" spec_base_transform
      translation_column "[0, 0, 0]"]
  by (simp add: panda_length)

subsection \<open>C5: the fixed correction touches the rotation block only\<close>

text \<open>
  C5: on a valid input of 7 joints, with \<open>T\<close> the transform of the full chain and
  \<open>A = base \<cdot> T\<close>, the pose that \<open>your_fk\<close> returns is read from \<open>A\<close> with its rotation block
  replaced by that block times \<open>adjustment\<close>; the translation column (and the last row) of
  that matrix are those of \<open>A\<close>; and the Jacobian returned is the value of
  \<open>construct_jacobian\<close> on the base transform, which does not involve \<open>adjustment\<close>.
\<close>

theorem c5_correction_rotation_only:
  assumes "length dh = 7" and "length q = 7"
  shows "\<exists>T jacobian.
           get_transform_to_base_from 7 q dh False = Inr T \<and>
           construct_jacobian 7 q dh (gmfp (base_pos @ [0, 0, 0, 1])) = Inr jacobian \<and>
           your_fk gmfp gpfm base_pos dh q =
             Inr (gpfm (set_block33 (matmul4 (gmfp (base_pos @ [0, 0, 0, 1])) T)
                          (matmul3 (block33 (matmul4 (gmfp (base_pos @ [0, 0, 0, 1])) T))
                                   adjustment)),
                  jacobian) \<and>
           translation_column
               (set_block33 (matmul4 (gmfp (base_pos @ [0, 0, 0, 1])) T)
                  (matmul3 (block33 (matmul4 (gmfp (base_pos @ [0, 0, 0, 1])) T)) adjustment))
             = translation_column (matmul4 (gmfp (base_pos @ [0, 0, 0, 1])) T) \<and>
           bottom_row
               (set_block33 (matmul4 (gmfp (base_pos @ [0, 0, 0, 1])) T)
                  (matmul3 (block33 (matmul4 (gmfp (base_pos @ [0, 0, 0, 1])) T)) adjustment))
             = bottom_row (matmul4 (gmfp (base_pos @ [0, 0, 0, 1])) T) \<and>
           block33
               (set_block33 (matmul4 (gmfp (base_pos @ [0, 0, 0, 1])) T)
                  (matmul3 (block33 (matmul4 (gmfp (base_pos @ [0, 0, 0, 1])) T)) adjustment))
             = matmul3 (block33 (matmul4 (gmfp (base_pos @ [0, 0, 0, 1])) T)) adjustment"
proof -
  let ?B = "gmfp (base_pos @ [0, 0, 0, 1])"
  let ?T = "spec_chain q dh 7"
  let ?A = "set_block33 (matmul4 ?B ?T) (matmul3 (block33 (matmul4 ?B ?T)) adjustment)"
  let ?J = "map (\<lambda>i. (cross (spec_Z ?B q dh (Suc i)) (spec_P ?B q dh 7 (Suc i)),
                         spec_Z ?B q dh (Suc i))) [0..<7]"
  have t: "get_transform_to_base_from 7 q dh False = Inr ?T"
    using assms by (rule gt_seven)
  have j: "construct_jacobian 7 q dh ?B = Inr ?J"
    using assms by (rule construct_jacobian_seven)
  have r: "your_fk gmfp gpfm base_pos dh q = Inr (gpfm ?A, ?J)"
    using assms by (rule your_fk_valid)
  have c: "translation_column ?A = translation_column (matmul4 ?B ?T)"
    by (rule set_block33_translation)
  have b: "bottom_row ?A = bottom_row (matmul4 ?B ?T)"
    by (rule set_block33_bottom)
  have k: "block33 ?A = matmul3 (block33 (matmul4 ?B ?T)) adjustment"
    by (rule set_block33_block)
  from t j r c b k show ?thesis by blast
qed

text \<open>
  C5 at the table of the robot, seven zero angles and the base position \<open>(1, 2, 3)\<close>,
  with the translation column as the pose that is read off.
\<close>

theorem c5_correction_rotation_only_witness:
  "length get_panda_DH_params = 7 \<and> length [0, 0, 0, 0, 0, 0, 0 :: real] = 7 \<and>
   (\<exists>T jacobian.
      get_transform_to_base_from 7 [0, 0, 0, 0, 0, 0, 0] get_panda_DH_params False = Inr T \<and>
      construct_jacobian 7 [0, 0, 0, 0, 0, 0, 0] get_panda_DH_params
          (spec_base_transform ([1, 2, 3] @ [0, 0, 0, 1])) = Inr jacobian \<and>
      your_fk spec_base_transform translation_column [1, 2, 3] get_panda_DH_params
          [0, 0, 0, 0, 0, 0, 0]
        = Inr (translation_column (matmul4 (spec_base_transform ([1, 2, 3] @ [0, 0, 0, 1])) T),
               jacobian))"
proof -
  have h1: "length get_panda_DH_params = 7" by (rule panda_length)
  have h2: "length [0, 0, 0, 0, 0, 0, 0 :: real] = 7" by simp
  from c5_correction_rotation_only [where gmfp = spec_base_transform and base_pos = "[1, 2, 3]"
      and gpfm = translation_column, OF h1 h2]
  obtain T jacobian where
    "get_transform_to_base_from 7 [0, 0, 0, 0, 0, 0, 0] get_panda_DH_params False = Inr T"
    "construct_jacobian 7 [0, 0, 0, 0, 0, 0, 0] get_panda_DH_params
          (spec_base_transform ([1, 2, 3] @ [0, 0, 0, 1])) = Inr jacobian"
    "your_fk spec_base_transform translation_column [1, 2, 3] get_panda_DH_params
          [0, 0, 0, 0, 0, 0, 0]
        = Inr (translation_column
                 (set_block33 (matmul4 (spec_base_transform ([1, 2, 3] @ [0, 0, 0, 1])) T)
                    (matmul3 (block33 (matmul4 (spec_base_transform ([1, 2, 3] @ [0, 0, 0, 1])) T))
                             adjustment)),
               jacobian)"
    "translation_column
         (set_block33 (matmul4 (spec_base_transform ([1, 2, 3] @ [0, 0, 0, 1])) T)
            (matmul3 (block33 (matmul4 (spec_base_transform ([1, 2, 3] @ [0, 0, 0, 1])) T))
                     adjustment))
       = translation_column (matmul4 (spec_base_transform ([1, 2, 3] @ [0, 0, 0, 1])) T)"
    by blast
  then have "get_transform_to_base_from 7 [0, 0, 0, 0, 0, 0, 0] get_panda_DH_params False = Inr T \<and>
      construct_jacobian 7 [0, 0, 0, 0, 0, 0, 0] get_panda_DH_params
          (spec_base_transform ([1, 2, 3] @ [0, 0, 0, 1])) = Inr jacobian \<and>
      your_fk spec_base_transform translation_column [1, 2, 3] get_panda_DH_params
          [0, 0, 0, 0, 0, 0, 0]
        = Inr (translation_column (matmul4 (spec_base_transform ([1, 2, 3] @ [0, 0, 0, 1])) T),
               jacobian)"
    by simp
  with h1 h2 show ?thesis by blast
qed

subsection \<open>C6: the angular block has unit norm\<close>

text \<open>
  C6: on a valid input of 7 joints, when the base transform has the identity as its
  rotation block (the identity orientation that \<open>your_fk\<close> appends to the base position),
  the angular block of every column of the returned Jacobian has Euclidean norm 1.
\<close>

theorem c6_angular_block_unit:
  assumes "length dh = 7" and "length q = 7"
    and "block33 (gmfp (base_pos @ [0, 0, 0, 1])) = identity3"
  shows "\<exists>pose_7d jacobian. your_fk gmfp gpfm base_pos dh q = Inr (pose_7d, jacobian) \<and>
           length jacobian = 7 \<and> (\<forall>i<7. norm3 (snd (jacobian ! i)) = 1)"
  using assms
  by (simp add: your_fk_valid norm3_def spec_Z_unit)

text \<open>
  C6 at the table of the robot, seven zero angles and the base position \<open>(1, 2, 3)\<close>.
\<close>

theorem c6_angular_block_unit_witness:
  "length get_panda_DH_params = 7 \<and> length [0, 0, 0, 0, 0, 0, 0 :: real] = 7 \<and>
   block33 (spec_base_transform ([1, 2, 3] @ [0, 0, 0, 1])) = identity3 \<and>
   (\<exists>pose_7d jacobian.
      your_fk spec_base_transform translation_column [1, 2, 3] get_panda_DH_params
        [0, 0, 0, 0, 0, 0, 0] = Inr (pose_7d, jacobian) \<and>
      length jacobian = 7 \<and> (\<forall>i<7. norm3 (snd (jacobian ! i)) = 1))"
proof -
  have h1: "length get_panda_DH_params = 7" by (rule panda_length)
  have h2: "length [0, 0, 0, 0, 0, 0, 0 :: real] = 7" by simp
  have h3: "block33 (spec_base_transform ([1, 2, 3] @ [0, 0, 0, 1])) = identity3"
    by (simp add: identity3_def)
  from c6_angular_block_unit [where gmfp = spec_base_transform and base_pos = "[1, 2, 3]"
      and gpfm = translation_column, OF h1 h2 h3] h1 h2 h3
  show ?thesis by blast
qed

subsection \<open>C10: the scores stay within their bounds\<close>

text \<open>
  C10: whenever \<open>score_fk\<close> completes, it has printed one line per test-case file, each
  line shows an FK score and a Jacobian score between 0 and the per-file maximum
  (\<open>FK_SCORE_MAX\<close>, respectively \<open>JACOBIAN_SCORE_MAX\<close>, divided by the number of files),
  and the total it prints lies between 0 and \<open>FK_SCORE_MAX + JACOBIAN_SCORE_MAX = 20\<close>.
\<close>

theorem c10_scores_bounded:
  assumes "score_fk gmfp gpfm pe je base_pos files = Inr (lines, printed_total, printed_max)"
  shows "length lines = length files \<and>
         (\<forall>l\<in>set lines. case l of (f, fmax, j, jmax) \<Rightarrow>
            0 \<le> f \<and> f \<le> fmax \<and> fmax = FK_SCORE_MAX / real (length files) \<and>
            0 \<le> j \<and> j \<le> jmax \<and> jmax = JACOBIAN_SCORE_MAX / real (length files)) \<and>
         0 \<le> printed_total \<and> printed_total \<le> printed_max \<and> printed_max = 20"
proof -
  let ?n = "length files"
  let ?st0 = "\<lparr>fk_score = replicate ?n (FK_SCORE_MAX / real ?n),
               fk_error_cnt = replicate ?n 0,
               jacobian_score = replicate ?n (JACOBIAN_SCORE_MAX / real ?n),
               jacobian_error_cnt = replicate ?n 0,
               printed = []\<rparr>"
  from assms obtain st where
    run: "score_files (your_fk gmfp gpfm base_pos get_panda_DH_params) pe je ?n
            (zip [0..<?n] files) ?st0 = Inr st" and
    lines: "lines = printed st" and
    tot: "printed_total = total_score (fk_score st) ?n + total_score (jacobian_score st) ?n" and
    tmax: "printed_max = FK_SCORE_MAX + JACOBIAN_SCORE_MAX"
    by (auto simp add: score_fk_def Let_def split: sum.splits)
  have ids: "\<forall>x\<in>set (zip [0..<?n] files). fst x < ?n"
    by (auto dest: set_zip_leftD)
  from score_files_ok [OF run initial_state_ok ids]
  have ok: "state_ok ?n st" and len: "length (printed st) = ?n" by simp_all
  from ok have f: "all_ok ?n (FK_SCORE_MAX / real ?n) (fk_score st)"
    and j: "all_ok ?n (JACOBIAN_SCORE_MAX / real ?n) (jacobian_score st)"
    and p: "\<forall>l\<in>set (printed st). line_ok ?n l"
    by (simp_all add: state_ok_def)
  have "0 \<le> total_score (fk_score st) ?n \<and> total_score (fk_score st) ?n \<le> FK_SCORE_MAX"
    using f by (rule total_score_bounds) (simp add: FK_SCORE_MAX_def)
  moreover have "0 \<le> total_score (jacobian_score st) ?n \<and>
                 total_score (jacobian_score st) ?n \<le> JACOBIAN_SCORE_MAX"
    using j by (rule total_score_bounds) (simp add: JACOBIAN_SCORE_MAX_def)
  ultimately have "0 \<le> printed_total \<and> printed_total \<le> printed_max"
    unfolding tot tmax by simp
  moreover have "printed_max = 20"
    unfolding tmax by (simp add: FK_SCORE_MAX_def JACOBIAN_SCORE_MAX_def)
  moreover have "\<forall>l\<in>set lines. case l of (f, fmax, j, jmax) \<Rightarrow>
            0 \<le> f \<and> f \<le> fmax \<and> fmax = FK_SCORE_MAX / real ?n \<and>
            0 \<le> j \<and> j \<le> jmax \<and> jmax = JACOBIAN_SCORE_MAX / real ?n"
    using p unfolding lines line_ok_def by simp
  ultimately show ?thesis using len lines by simp
qed

text \<open>
  C10 at one file with one test case whose pose error is above the threshold and whose
  Jacobian error is below it: the FK score is clamped from \<open>10 - 200/3\<close> to 0.
\<close>

theorem c10_scores_bounded_witness:
  "score_fk spec_base_transform translation_column (\<lambda>your_pose gt_pose. Inr 1)
       (\<lambda>your_jacobian gt_jacobian. Inr 0) [0, 0, 0]
       [\<lparr>joint_poses = [ [0, 0, 0, 0, 0, 0, 0] ], poses = [ [0] ], jacobian = [ [ [0] ] ]\<rparr>]
     = Inr ([(0, 10, 10, 10)], 10, 20) \<and>
   length [(0::real, 10::real, 10::real, 10::real)]
     = length [\<lparr>joint_poses = [ [0, 0, 0, 0, 0, 0, 0] ], poses = [ [0] ], jacobian = [ [ [0] ] ]\<rparr>] \<and>
   (0::real) \<le> 10 \<and> (10::real) \<le> 20"
proof -
  let ?files = "[\<lparr>joint_poses = [ [0, 0, 0, 0, 0, 0, 0] ], poses = [ [0::real] ],
                   jacobian = [ [ [0::real] ] ]\<rparr>]"
  have run: "score_fk spec_base_transform translation_column (\<lambda>your_pose gt_pose. Inr 1)
       (\<lambda>your_jacobian gt_jacobian. Inr 0) [0, 0, 0] ?files
     = Inr ([(0, 10, 10, 10)], 10, 20)"
    by (simp add: score_fk_def score_file_def score_case_def py_truediv_def py_index_def
        your_fk_valid [OF panda_length] Let_def TASK1_SCORE_MAX_def FK_SCORE_MAX_def
        JACOBIAN_SCORE_MAX_def FK_ERROR_THRESH_def JACOBIAN_ERROR_THRESH_def
        penalise_def count_error_def clamp_score_def total_score_def)
  from c10_scores_bounded [OF run] run show ?thesis by simp
qed

subsection \<open>C9: when the indexing is in bounds\<close>

text \<open>
  C9, as stated, makes the indexing in bounds whenever \<open>level < len(DH_params)\<close>. The
  builder indexes \<open>pose\<close> as well: with an empty pose vector, a table of one joint and
  level 0 the read of \<open>pose[0]\<close> raises \<open>IndexError\<close>. A negative level is below the
  length of every table too: level \<open>-1\<close> on empty lists reads \<open>pose[-1]\<close>, which raises.
\<close>

theorem c9_counterexample:
  "(0::int) < int (length [\<lparr>dh_a = 0, dh_d = 0, dh_alpha = 0\<rparr>]) \<and>
   get_transform_to_base_from 0 [] [\<lparr>dh_a = 0, dh_d = 0, dh_alpha = 0\<rparr>] False = Inl IndexError \<and>
   (-1::int) < int (length ([]::dh_param list)) \<and>
   get_transform_to_base_from (-1) [] [] False = Inl IndexError"
  by (simp add: get_transform_to_base_from_def py_range_def joint_step_def py_index_def)

text \<open>
  C9, amended: for \<open>level \<ge> 0\<close> and a pose vector at least as long as the table, the
  builder raises no \<open>IndexError\<close> if and only if \<open>level < len(DH_params)\<close>, or
  \<open>level = len(DH_params)\<close> and the flag is off, and \<open>IndexError\<close> is the only exception it
  can raise. With \<open>level = len(DH_params)\<close> and the flag on the loop runs through in
  bounds and the inclusive branch raises \<open>IndexError\<close>: at its first read, \<open>pose[level]\<close>,
  when the pose vector is as long as the table, and otherwise at \<open>DH_params[level]\<close>, the
  read of \<open>pose[level]\<close> being in bounds then. On the call sites of the program: with 7
  joints the builder raises none at the levels 0 to 6 and at level 7 with the flag off;
  on a table and a joint vector of length 7, \<open>calc_Z\<close> and \<open>calc_P\<close> return at every joint
  index below 7, and \<open>construct_jacobian\<close> and \<open>your_fk\<close> return; and \<open>your_fk\<close> raises
  \<open>IndexError\<close> on no input at all, since the assertion rejects every other length.
\<close>

theorem c9_index_bounds:
  assumes "0 \<le> level" and "length dh \<le> length pose"
  shows "(get_transform_to_base_from level pose dh flag \<noteq> Inl IndexError \<longleftrightarrow>
            level < int (length dh) \<or> (level = int (length dh) \<and> \<not> flag)) \<and>
         (\<forall>e. get_transform_to_base_from level pose dh flag = Inl e \<longrightarrow> e = IndexError) \<and>
         get_transform_to_base_from (int (length dh)) pose dh True = Inl IndexError \<and>
         joint_loop pose dh (py_range (int (length dh))) identity4
           = Inr (spec_chain pose dh (length dh)) \<and>
         (length pose = length dh \<longrightarrow>
            py_index pose (int (length dh)) = Inl IndexError) \<and>
         (length dh < length pose \<longrightarrow>
            py_index pose (int (length dh)) = Inr (pose ! length dh) \<and>
            py_index dh (int (length dh)) = Inl IndexError) \<and>
         (length dh = 7 \<longrightarrow>
            (\<forall>i<7. get_transform_to_base_from (int i) pose dh False \<noteq> Inl IndexError) \<and>
            get_transform_to_base_from 7 pose dh False \<noteq> Inl IndexError) \<and>
         (length DH_params = 7 \<and> length q = 7 \<longrightarrow>
            (\<forall>i<7. (\<exists>Z. calc_Z (int i) q DH_params base = Inr Z) \<and>
                    (\<exists>P. calc_P (int i) q 7 DH_params base = Inr P)) \<and>
            (\<exists>J. construct_jacobian 7 q DH_params base = Inr J) \<and>
            (\<exists>r. your_fk gmfp gpfm base_pos DH_params q = Inr r)) \<and>
         your_fk gmfp gpfm base_pos DH_params q \<noteq> Inl IndexError"
proof (intro conjI allI impI)
  show "get_transform_to_base_from level pose dh flag \<noteq> Inl IndexError \<longleftrightarrow>
            level < int (length dh) \<or> (level = int (length dh) \<and> \<not> flag)"
  proof (cases "level < int (length dh)")
    case True
    with assms have "level < int (length pose)" by simp
    from gt_partial [OF assms(1) True this] True show ?thesis by simp
  next
    case False
    show ?thesis
    proof (cases "level = int (length dh)")
      case True
      then show ?thesis
        using gt_full [OF assms(2)] gt_full_inclusive [of dh pose] by (cases flag) simp_all
    next
      case False
      with \<open>\<not> level < int (length dh)\<close> have "int (length dh) < level" by simp
      then show ?thesis using gt_beyond [of dh level pose flag] by simp
    qed
  qed
next
  fix e assume "get_transform_to_base_from level pose dh flag = Inl e"
  then show "e = IndexError" by (rule gt_error)
next
  show "get_transform_to_base_from (int (length dh)) pose dh True = Inl IndexError"
    by (rule gt_full_inclusive)
next
  show "joint_loop pose dh (py_range (int (length dh))) identity4
           = Inr (spec_chain pose dh (length dh))"
    using assms(2) by (rule joint_loop_full)
next
  assume "length pose = length dh"
  then show "py_index pose (int (length dh)) = Inl IndexError"
    using py_index_length [of pose] by simp
next
  assume "length dh < length pose"
  then show "py_index pose (int (length dh)) = Inr (pose ! length dh)"
    by (rule py_index_nat)
next
  show "py_index dh (int (length dh)) = Inl IndexError"
    by (rule py_index_length)
next
  fix i :: nat
  assume "length dh = 7" "i < 7"
  with assms have "int i < int (length dh)" "int i < int (length pose)" by simp_all
  from gt_partial [OF _ this, of False]
  show "get_transform_to_base_from (int i) pose dh False \<noteq> Inl IndexError" by simp
next
  assume "length dh = 7"
  with gt_full [OF assms(2)]
  show "get_transform_to_base_from 7 pose dh False \<noteq> Inl IndexError" by simp
next
  fix i :: nat
  assume h: "length DH_params = 7 \<and> length q = 7" and i: "i < 7"
  from h i show "\<exists>Z. calc_Z (int i) q DH_params base = Inr Z"
    by (simp add: calc_Z_seven)
next
  fix i :: nat
  assume h: "length DH_params = 7 \<and> length q = 7" and i: "i < 7"
  from h i show "\<exists>P. calc_P (int i) q 7 DH_params base = Inr P"
    by (simp add: calc_P_seven)
next
  assume h: "length DH_params = 7 \<and> length q = 7"
  then show "\<exists>J. construct_jacobian 7 q DH_params base = Inr J"
    by (simp add: construct_jacobian_seven)
next
  assume h: "length DH_params = 7 \<and> length q = 7"
  then show "\<exists>r. your_fk gmfp gpfm base_pos DH_params q = Inr r"
    by (simp add: your_fk_valid)
next
  show "your_fk gmfp gpfm base_pos DH_params q \<noteq> Inl IndexError"
    by (rule your_fk_no_index_error)
qed

text \<open>
  The amended C9 at the table of the robot: with seven zero angles, where \<open>pose[7]\<close> is
  the read that is out of range, and with eight angles, where \<open>pose[7]\<close> is read and
  \<open>DH_params[7]\<close> is out of range.
\<close>

theorem c9_index_bounds_witness:
  "(0::int) \<le> 7 \<and>
   length get_panda_DH_params \<le> length [0, 0, 0, 0, 0, 0, 0 :: real] \<and>
   get_transform_to_base_from 7 [0, 0, 0, 0, 0, 0, 0] get_panda_DH_params False
     \<noteq> Inl IndexError \<and>
   get_transform_to_base_from 7 [0, 0, 0, 0, 0, 0, 0] get_panda_DH_params True
     = Inl IndexError \<and>
   length [0, 0, 0, 0, 0, 0, 0 :: real] = length get_panda_DH_params \<and>
   py_index [0, 0, 0, 0, 0, 0, 0 :: real] 7 = Inl IndexError \<and>
   length get_panda_DH_params < length [0, 0, 0, 0, 0, 0, 0, 5 :: real] \<and>
   py_index [0, 0, 0, 0, 0, 0, 0, 5 :: real] 7 = Inr 5 \<and>
   py_index get_panda_DH_params 7 = Inl IndexError \<and>
   get_transform_to_base_from 7 [0, 0, 0, 0, 0, 0, 0, 5] get_panda_DH_params True
     = Inl IndexError \<and>
   length get_panda_DH_params = 7 \<and>
   get_transform_to_base_from 3 [0, 0, 0, 0, 0, 0, 0] get_panda_DH_params False
     \<noteq> Inl IndexError \<and>
   (\<exists>Z. calc_Z 3 [0, 0, 0, 0, 0, 0, 0] get_panda_DH_params identity4 = Inr Z) \<and>
   (\<exists>P. calc_P 3 [0, 0, 0, 0, 0, 0, 0] 7 get_panda_DH_params identity4 = Inr P) \<and>
   (\<exists>r. your_fk spec_base_transform translation_column [0, 0, 0] get_panda_DH_params
          [0, 0, 0, 0, 0, 0, 0] = Inr r) \<and>
   your_fk spec_base_transform translation_column [0, 0, 0] get_panda_DH_params
          [0, 0, 0, 0, 0, 0, 0] \<noteq> Inl IndexError"
proof -
  let ?q7 = "[0, 0, 0, 0, 0, 0, 0 :: real]"
  let ?q8 = "[0, 0, 0, 0, 0, 0, 0, 5 :: real]"
  have h1: "(0::int) \<le> 7" by simp
  have h2: "length get_panda_DH_params \<le> length ?q7" by (simp add: panda_length)
  have h2': "length get_panda_DH_params \<le> length ?q8" by (simp add: panda_length)
  have h3: "length get_panda_DH_params = 7" by (rule panda_length)
  have h4: "length ?q7 = length get_panda_DH_params" by (simp add: panda_length)
  have h5: "length get_panda_DH_params < length ?q8" by (simp add: panda_length)
  have h6: "length get_panda_DH_params = 7 \<and> length ?q7 = 7" by (simp add: panda_length)
  note t = c9_index_bounds [where level = 7 and pose = ?q7 and dh = get_panda_DH_params
      and flag = False and DH_params = get_panda_DH_params and q = ?q7 and base = identity4
      and gmfp = spec_base_transform and gpfm = translation_column and base_pos = "[0, 0, 0]",
      OF h1 h2]
  note u = c9_index_bounds [where level = 7 and pose = ?q8 and dh = get_panda_DH_params
      and flag = True and DH_params = get_panda_DH_params and q = ?q7 and base = identity4
      and gmfp = spec_base_transform and gpfm = translation_column and base_pos = "[0, 0, 0]",
      OF h1 h2']
  from t h3 have a: "get_transform_to_base_from 7 ?q7 get_panda_DH_params False
                       \<noteq> Inl IndexError" by simp
  from t h3 have b: "get_transform_to_base_from 7 ?q7 get_panda_DH_params True
                       = Inl IndexError" by simp
  from t h3 h4 have c: "py_index ?q7 7 = Inl IndexError" by simp
  from u h3 h5 have d: "py_index ?q8 7 = Inr 5" by simp
  from u h3 h5 have e: "py_index get_panda_DH_params 7 = Inl IndexError" by simp
  from u h3 have f: "get_transform_to_base_from 7 ?q8 get_panda_DH_params True
                       = Inl IndexError" by simp
  from t h3 have q: "\<forall>i<7. get_transform_to_base_from (int i) ?q7 get_panda_DH_params False
                       \<noteq> Inl IndexError" by blast
  from q [rule_format, of 3]
  have g: "get_transform_to_base_from 3 ?q7 get_panda_DH_params False \<noteq> Inl IndexError"
    by simp
  from t h6 have zp: "\<forall>i<7. (\<exists>Z. calc_Z (int i) ?q7 get_panda_DH_params identity4 = Inr Z) \<and>
                    (\<exists>P. calc_P (int i) ?q7 7 get_panda_DH_params identity4 = Inr P)"
    by blast
  from zp [rule_format, of 3]
  have z: "\<exists>Z. calc_Z 3 ?q7 get_panda_DH_params identity4 = Inr Z"
    and p: "\<exists>P. calc_P 3 ?q7 7 get_panda_DH_params identity4 = Inr P"
    by simp_all
  from t h6 have r: "\<exists>r. your_fk spec_base_transform translation_column [0, 0, 0]
                          get_panda_DH_params ?q7 = Inr r" by blast
  from t have n: "your_fk spec_base_transform translation_column [0, 0, 0]
                          get_panda_DH_params ?q7 \<noteq> Inl IndexError" by blast
  from h1 h2 a b h4 c h5 d e f h3 g z p r n show ?thesis by blast
qed

end
